theory Spec2Isabelle
  imports Complex_Main
begin

section \<open>The Keithley 6485 / 648x asyn port drivers\<close>

text \<open>
  A shallow embedding of \<^verbatim>\<open>k6485App/src/drvAsynKeithley6485.cpp\<close> and
  \<^verbatim>\<open>k648xApp/src/drvAsynKeithley648x.cpp\<close>. The two files share most of their text;
  a function whose body is the same in both is embedded once, a function that differs
  is embedded per file, and the dispatchers take the file as a parameter
  (\<open>driver\<close>).

  Conventions of the embedding.
  \<^item> A C string is the \<open>string\<close> of its characters before the terminating NUL; a
    \<^verbatim>\<open>char *\<close> that may be \<^verbatim>\<open>NULL\<close> is a \<open>string option\<close>.
  \<^item> A \<^verbatim>\<open>double\<close> is a \<open>real\<close>: rounding to the nearest double, infinities and
    NaN are not represented.
  \<^item> An \<^verbatim>\<open>int\<close> is an \<open>int\<close>; the one conversion that can leave the 32-bit
    range, \<^verbatim>\<open>(int) atof(...)\<close>, is checked (\<open>double_to_int\<close>).
  \<^item> A step whose behaviour C leaves undefined (dereferencing \<^verbatim>\<open>NULL\<close>, reading an
    array out of bounds, sending an uninitialised buffer, converting an
    unrepresentable double) ends the call with the outcome \<open>Undefined\<close>; the port
    returned with it is the port as it was when that step was reached.
  \<^item> An uninitialised \<^verbatim>\<open>int\<close> local that is read holds an arbitrary value, which the
    function takes as its first argument.
  \<^item> The transport (\<^verbatim>\<open>pasynOctetSyncIO\<close>) is outside the driver: what it answers to
    each request is given by an \<open>env\<close>.
\<close>

subsection \<open>C library functions used by the drivers\<close>

definition isspace_c :: "char \<Rightarrow> bool" where
  "isspace_c c = (c = CHR '' '' \<or> (9 \<le> (of_char c :: nat) \<and> (of_char c :: nat) \<le> 13))"

definition isdigit_c :: "char \<Rightarrow> bool" where
  "isdigit_c c = (48 \<le> (of_char c :: nat) \<and> (of_char c :: nat) \<le> 57)"

text \<open>\<^verbatim>\<open>toupper\<close> in the C locale.\<close>

definition toupper_c :: "char \<Rightarrow> char" where
  "toupper_c c =
     (if 97 \<le> (of_char c :: nat) \<and> (of_char c :: nat) \<le> 122
      then ''ABCDEFGHIJKLMNOPQRSTUVWXYZ'' ! ((of_char c :: nat) - 97)
      else c)"

definition digit_value :: "char \<Rightarrow> nat" where
  "digit_value c = (of_char c :: nat) - 48"

definition digits_value :: "string \<Rightarrow> nat" where
  "digits_value ds = foldl (\<lambda>acc c. 10 * acc + digit_value c) 0 ds"

text \<open>\<^verbatim>\<open>strchr(s, c)\<close> for \<open>c\<close> other than NUL: the suffix of \<open>s\<close> that starts at the
  first \<open>c\<close>, or \<^verbatim>\<open>NULL\<close>.\<close>

fun strchr :: "string \<Rightarrow> char \<Rightarrow> string option" where
  "strchr [] c = None"
| "strchr (x # xs) c = (if x = c then Some (x # xs) else strchr xs c)"

text \<open>An optional sign in front of a number: whether it is a minus, and the rest.\<close>

definition c_sign :: "string \<Rightarrow> bool \<times> string" where
  "c_sign s =
     (case s of
        [] \<Rightarrow> (False, [])
      | c # r \<Rightarrow> if c = CHR ''-'' then (True, r)
                 else if c = CHR ''+'' then (False, r)
                 else (False, s))"

text \<open>\<^verbatim>\<open>atoi\<close>: leading white space, an optional sign, the longest run of decimal
  digits; 0 when there is no digit. (C leaves a value outside \<^verbatim>\<open>int\<close> undefined; the
  model returns the mathematical value.)\<close>

definition atoi :: "string \<Rightarrow> int" where
  "atoi s =
     (let (neg, r) = c_sign (dropWhile isspace_c s);
          n = int (digits_value (takeWhile isdigit_c r))
      in if neg then - n else n)"

text \<open>The exponent part of a decimal floating literal: \<open>e\<close> or \<open>E\<close>, an optional sign
  and at least one digit; anything else is no exponent.\<close>

definition c_exponent :: "string \<Rightarrow> int" where
  "c_exponent s =
     (case s of
        [] \<Rightarrow> 0
      | c # r \<Rightarrow>
          if c = CHR ''e'' \<or> c = CHR ''E'' then
            (let (neg, r') = c_sign r; ds = takeWhile isdigit_c r'
             in if ds = [] then 0
                else if neg then - int (digits_value ds) else int (digits_value ds))
          else 0)"

definition pow10 :: "int \<Rightarrow> real" where
  "pow10 e = (if 0 \<le> e then 10 ^ nat e else 1 / 10 ^ nat (- e))"

text \<open>\<^verbatim>\<open>atof\<close> on the decimal forms of \<^verbatim>\<open>strtod\<close>: leading white space, an optional sign,
  digits with an optional radix point, an optional exponent; 0 when no digit is found.
  The result is the value the text denotes: it is not rounded to the nearest double,
  and the hexadecimal, \<^verbatim>\<open>inf\<close> and \<^verbatim>\<open>nan\<close> forms of \<^verbatim>\<open>strtod\<close> are not modelled. It is used
  on given replies, where this makes no difference to what is observed, and on
  arbitrary text only under \<open>exact_field\<close> below.\<close>

definition atof :: "string \<Rightarrow> real" where
  "atof s =
     (let (neg, r) = c_sign (dropWhile isspace_c s);
          ip = takeWhile isdigit_c r;
          r1 = dropWhile isdigit_c r;
          (fp, r2) = (case r1 of
                        [] \<Rightarrow> ([], [])
                      | c # t \<Rightarrow> if c = CHR ''.''
                                 then (takeWhile isdigit_c t, dropWhile isdigit_c t)
                                 else ([], r1))
      in if ip = [] \<and> fp = [] then 0
         else (let m = real (digits_value (ip @ fp)) / 10 ^ length fp * pow10 (c_exponent r2)
               in if neg then - m else m))"

text \<open>The conversion \<^verbatim>\<open>(int) d\<close>: truncation towards zero, undefined (\<open>None\<close>) when
  the truncated value is not a 32-bit \<^verbatim>\<open>int\<close>.\<close>

definition double_to_int :: "real \<Rightarrow> int option" where
  "double_to_int d =
     (let t = (if 0 \<le> d then \<lfloor>d\<rfloor> else \<lceil>d\<rceil>)
      in if - 2147483648 \<le> t \<and> t \<le> 2147483647 then Some t else None)"

text \<open>The texts on which \<open>atof\<close> above is exactly the \<^verbatim>\<open>atof\<close> of C, as a double and after
  \<^verbatim>\<open>(int)\<close>. \<open>number_start\<close> is the text after white space and a sign. A text is
  \<open>not_a_number\<close> when no form of \<^verbatim>\<open>strtod\<close> begins there (no digit, no radix point, not
  \<^verbatim>\<open>inf\<close> or \<^verbatim>\<open>nan\<close> in either case): \<^verbatim>\<open>atof\<close> converts nothing and returns 0. It is a
  \<open>plain_integer\<close> when at most nine decimal digits begin there and what follows them
  continues no longer form (no radix point, no exponent, no \<^verbatim>\<open>x\<close> of a hexadecimal
  prefix): \<^verbatim>\<open>atof\<close> returns that integer, which a double and an \<^verbatim>\<open>int\<close> hold exactly.
  An \<open>exact_field\<close> is one or the other and holds no NUL, which would end the C
  string.\<close>

definition number_start :: "string \<Rightarrow> string" where
  "number_start t = snd (c_sign (dropWhile isspace_c t))"

definition not_a_number :: "string \<Rightarrow> bool" where
  "not_a_number t =
     ((case number_start t of [] \<Rightarrow> True | c # r \<Rightarrow> \<not> isdigit_c c \<and> c \<noteq> CHR ''.'')
      \<and> map toupper_c (take 3 (number_start t)) \<noteq> ''INF''
      \<and> map toupper_c (take 3 (number_start t)) \<noteq> ''NAN'')"

definition plain_integer :: "string \<Rightarrow> bool" where
  "plain_integer t =
     (let ds = takeWhile isdigit_c (number_start t);
          rest = dropWhile isdigit_c (number_start t)
      in ds \<noteq> [] \<and> length ds \<le> 9
         \<and> (case rest of
               [] \<Rightarrow> True
             | c # r \<Rightarrow> c \<noteq> CHR ''.'' \<and> c \<noteq> CHR ''e'' \<and> c \<noteq> CHR ''E''
                        \<and> c \<noteq> CHR ''x'' \<and> c \<noteq> CHR ''X''))"

definition exact_field :: "string \<Rightarrow> bool" where
  "exact_field t = (CHR 0x00 \<notin> set t \<and> (not_a_number t \<or> plain_integer t))"

text \<open>\<^verbatim>\<open>printf("%d")\<close>.\<close>

definition digit_char :: "nat \<Rightarrow> char" where
  "digit_char n = ''0123456789'' ! n"

fun dec_digits :: "nat \<Rightarrow> string" where
  "dec_digits n =
     (if n < 10 then [digit_char n] else dec_digits (n div 10) @ [digit_char (n mod 10)])"

declare dec_digits.simps [simp del]

definition printf_d :: "int \<Rightarrow> string" where
  "printf_d i = (if i < 0 then CHR ''-'' # dec_digits (nat (- i)) else dec_digits (nat i))"

text \<open>\<^verbatim>\<open>printf("%g")\<close> of a finite value: six significant digits, rounded to nearest
  (ties to even); fixed notation when the decimal exponent \<open>X\<close> satisfies
  \<open>-4 \<le> X < 6\<close>, exponent notation otherwise; trailing zeros and a trailing radix
  point removed. \<open>norm10\<close> brings the magnitude into \<open>[1, 10)\<close>; 400 steps cover every
  finite double.\<close>

fun norm10 :: "nat \<Rightarrow> real \<Rightarrow> int \<Rightarrow> real \<times> int" where
  "norm10 0 x e = (x, e)"
| "norm10 (Suc k) x e =
     (if 10 \<le> x then norm10 k (x / 10) (e + 1)
      else if x < 1 then norm10 k (x * 10) (e - 1)
      else (x, e))"

definition round_half_even :: "real \<Rightarrow> int" where
  "round_half_even x =
     (let f = \<lfloor>x\<rfloor>; d = x - of_int f
      in if d < 1 / 2 then f
         else if 1 / 2 < d then f + 1
         else if even f then f else f + 1)"

definition strip_zeros :: "string \<Rightarrow> string" where
  "strip_zeros ds = rev (dropWhile (\<lambda>c. c = CHR ''0'') (rev ds))"

definition g_fixed :: "string \<Rightarrow> int \<Rightarrow> string" where
  "g_fixed ds X =
     (if 0 \<le> X then
        (let ip = take (nat X + 1) ds; fp = strip_zeros (drop (nat X + 1) ds)
         in if fp = [] then ip else ip @ ''.'' @ fp)
      else ''0.'' @ replicate (nat (- X - 1)) (CHR ''0'') @ strip_zeros ds)"

definition g_exp :: "string \<Rightarrow> int \<Rightarrow> string" where
  "g_exp ds X =
     (let fp = strip_zeros (tl ds);
          n = dec_digits (nat \<bar>X\<bar>)
      in take 1 ds @ (if fp = [] then [] else ''.'' @ fp) @ ''e''
         @ (if X < 0 then ''-'' else ''+'') @ (if length n < 2 then ''0'' @ n else n))"

definition printf_g :: "real \<Rightarrow> string" where
  "printf_g x =
     (if x = 0 then ''0''
      else
        (let (m, e0) = norm10 400 \<bar>x\<bar> 0;
             d0 = round_half_even (m * 100000);
             (d, X) = (if d0 = 1000000 then (100000, e0 + 1) else (d0, e0));
             ds = dec_digits (nat d);
             sg = (if x < 0 then ''-'' else [])
         in if - 4 \<le> X \<and> X < 6 then sg @ g_fixed ds X else sg @ g_exp ds X))"

text \<open>\<^verbatim>\<open>epicsStrtok_r(s, delim, &lasts)\<close> (EPICS base, the BSD \<^verbatim>\<open>strtok_r\<close>): continue
  at \<open>lasts\<close> when \<open>s\<close> is \<^verbatim>\<open>NULL\<close>; skip leading delimiters; \<^verbatim>\<open>NULL\<close> when nothing is
  left; otherwise the token up to the next delimiter, and \<open>lasts\<close> after it
  (\<^verbatim>\<open>NULL\<close> when the token ended the string). Returns the token and the new
  \<open>lasts\<close>.\<close>

definition epicsStrtok_r ::
  "string option \<Rightarrow> string \<Rightarrow> string option \<Rightarrow> string option \<times> string option" where
  "epicsStrtok_r s delim lasts =
     (case (case s of None \<Rightarrow> lasts | Some x \<Rightarrow> Some x) of
        None \<Rightarrow> (None, lasts)
      | Some x \<Rightarrow>
          (let y = dropWhile (\<lambda>c. c \<in> set delim) x
           in if y = [] then (None, None)
              else (let tok = takeWhile (\<lambda>c. c \<notin> set delim) y;
                        rest = dropWhile (\<lambda>c. c \<notin> set delim) y
                    in (Some tok, if rest = [] then None else Some (tl rest)))))"

text \<open>\<^verbatim>\<open>epicsStrCaseCmp(a, b) == 0\<close>: equal up to the case of ASCII letters.\<close>

definition epicsStrCaseCmp_eq :: "string \<Rightarrow> string \<Rightarrow> bool" where
  "epicsStrCaseCmp_eq a b = (map toupper_c a = map toupper_c b)"

subsection \<open>Types of the drivers\<close>

datatype asynStatus =
  asynSuccess | asynTimeout | asynOverflow | asynError | asynDisconnected | asynDisabled

text \<open>\<^verbatim>\<open>typedef enum {Octet=1, Float64=2, Int32=3} Type;\<close>\<close>

datatype Type = Octet | Float64 | Int32

text \<open>\<^verbatim>\<open>enum { DEV_ALL, DEV_6485, DEV_6487 };\<close> (648x file only; a port of the 6485 file
  has no \<open>devtype\<close> and never reads it).\<close>

datatype dev = DEV_ALL | DEV_6485 | DEV_6487

record Stats =
  ioErrors :: int
  writeReads :: int
  writeOnlys :: int

text \<open>\<open>status_raw\<close> is \<^verbatim>\<open>data.status.raw\<close>; the bit-field view
  \<^verbatim>\<open>data.status.bits\<close> of the same word is read through the functions \<open>bits_*\<close> below.\<close>

record Data =
  reading :: real
  timestamp :: int
  status_raw :: int
  eom :: int

text \<open>A request handed to the transport: through \<^verbatim>\<open>pasynOctetSyncIO->write\<close> or through
  \<^verbatim>\<open>pasynOctetSyncIO->writeRead\<close>.\<close>

datatype exchange = Write string | WriteRead string

text \<open>\<^verbatim>\<open>struct Port\<close>. \<open>model\<close> is the character array; \<open>serial\<close> to \<open>brd_rev\<close> are the
  pointers into it, \<^verbatim>\<open>NULL\<close> (\<open>None\<close>) after \<^verbatim>\<open>calloc\<close>. \<open>wire\<close> is not a field of the C
  struct: it records, in order, every request handed to the transport, so that
  "no device I/O" can be stated.\<close>

record Port =
  devtype :: dev
  init :: int
  model :: string
  serial :: "string option"
  dig_rev :: "string option"
  disp_rev :: "string option"
  brd_rev :: "string option"
  stats :: Stats
  data :: Data
  wire :: "exchange list"

text \<open>The bit-fields of \<^verbatim>\<open>data.status.bits\<close>, allocated from the least significant
  bit as the comment in the source numbers them: bit 0 overflow, 1 filter, 2 math,
  3 null, 4 limit test, 5 and 6 limit result, 7 overvoltage, 8 padding, 9 zero check,
  10 zero correct.\<close>

definition bits_overflow :: "int \<Rightarrow> int" where
  "bits_overflow raw = take_bit 1 (drop_bit 0 raw)"

definition bits_filter_enabled :: "int \<Rightarrow> int" where
  "bits_filter_enabled raw = take_bit 1 (drop_bit 1 raw)"

definition bits_math_enabled :: "int \<Rightarrow> int" where
  "bits_math_enabled raw = take_bit 1 (drop_bit 2 raw)"

definition bits_null_enabled :: "int \<Rightarrow> int" where
  "bits_null_enabled raw = take_bit 1 (drop_bit 3 raw)"

definition bits_limit_test :: "int \<Rightarrow> int" where
  "bits_limit_test raw = take_bit 1 (drop_bit 4 raw)"

definition bits_limit_result :: "int \<Rightarrow> int" where
  "bits_limit_result raw = take_bit 2 (drop_bit 5 raw)"

definition bits_overvoltage :: "int \<Rightarrow> int" where
  "bits_overvoltage raw = take_bit 1 (drop_bit 7 raw)"

definition bits_zero_check_enabled :: "int \<Rightarrow> int" where
  "bits_zero_check_enabled raw = take_bit 1 (drop_bit 9 raw)"

definition bits_zero_correct_enabled :: "int \<Rightarrow> int" where
  "bits_zero_correct_enabled raw = take_bit 1 (drop_bit 10 raw)"

text \<open>The value behind a handler's \<^verbatim>\<open>void *data\<close>. \<open>Octet_ptr_val\<close> is the address of
  the caller's own \<^verbatim>\<open>char *\<close>, which \<^verbatim>\<open>writeOctet\<close> hands to \<^verbatim>\<open>writeSimpleData\<close>.\<close>

datatype val = Octet_val string | Float64_val real | Int32_val int | Octet_ptr_val string

text \<open>How a call ends: it returns a status, or it reaches undefined behaviour.\<close>

datatype outcome = Return asynStatus | Undefined

text \<open>What a handler stores through its out-parameters \<^verbatim>\<open>data\<close>, \<^verbatim>\<open>length\<close> (or
  \<^verbatim>\<open>nbytes\<close>) and \<^verbatim>\<open>eom\<close>; \<open>None\<close> for one it does not touch.\<close>

type_synonym outputs = "val option \<times> nat option \<times> int option"

definition no_output :: outputs where
  "no_output = (None, None, None)"

type_synonym result = "outcome \<times> Port \<times> outputs"

subsection \<open>The transport\<close>

text \<open>What lies outside the driver. \<open>octet_write\<close> is \<^verbatim>\<open>pasynOctetSyncIO->write\<close>: for
  the request, the status and \<^verbatim>\<open>nActual\<close>. \<open>octet_writeRead\<close> is
  \<^verbatim>\<open>pasynOctetSyncIO->writeRead\<close>: the status, \<^verbatim>\<open>nWrite\<close>, the bytes read (\<^verbatim>\<open>nRead\<close> is
  their number) and what it stores in \<^verbatim>\<open>*eomReason\<close>, if anything. \<open>uninit_int\<close> is the
  value an uninitialised \<^verbatim>\<open>int\<close> local happens to hold.\<close>

record env =
  octet_write :: "string \<Rightarrow> asynStatus \<times> nat"
  octet_writeRead :: "string \<Rightarrow> asynStatus \<times> nat \<times> string \<times> int option"
  uninit_int :: int

definition BUFFER_SIZE :: nat where
  "BUFFER_SIZE = 100"

text \<open>\<^verbatim>\<open>writeOnly\<close> (the same in both files but for \<^verbatim>\<open>TIMEOUT\<close>, which the transport
  keeps to itself).\<close>

definition writeOnly :: "Port \<Rightarrow> string \<Rightarrow> env \<Rightarrow> asynStatus \<times> Port" where
  "writeOnly pport outBuf ev =
     (let nRequested = length outBuf;
          (status0, nActual) = octet_write ev outBuf;
          p1 = pport\<lparr>wire := wire pport @ [Write outBuf]\<rparr>;
          status = (if nActual \<noteq> nRequested then asynError else status0)
      in if status \<noteq> asynSuccess
         then (status, p1\<lparr>stats := (stats p1)\<lparr>ioErrors := ioErrors (stats p1) + 1\<rparr>\<rparr>)
         else (status, p1\<lparr>stats := (stats p1)\<lparr>writeOnlys := writeOnlys (stats p1) + 1\<rparr>\<rparr>))"

text \<open>\<^verbatim>\<open>writeRead\<close>. Returns the status, the port, \<^verbatim>\<open>inpBuf\<close> and what the transport
  stored in \<^verbatim>\<open>*eomReason\<close>. The transport reads at most \<open>inputSize - 1\<close> bytes. After a
  failure \<^verbatim>\<open>inpBuf\<close> is never read by a caller; the model returns it empty.\<close>

definition writeRead ::
  "Port \<Rightarrow> string \<Rightarrow> nat \<Rightarrow> env \<Rightarrow> asynStatus \<times> Port \<times> string \<times> int option" where
  "writeRead pport outBuf inputSize ev =
     (let nWriteRequested = length outBuf;
          (status0, nWrite, bytes, eomReason) = octet_writeRead ev outBuf;
          p1 = pport\<lparr>wire := wire pport @ [WriteRead outBuf]\<rparr>;
          status = (if nWrite \<noteq> nWriteRequested then asynError else status0)
      in if status \<noteq> asynSuccess
         then (status, p1\<lparr>stats := (stats p1)\<lparr>ioErrors := ioErrors (stats p1) + 1\<rparr>\<rparr>,
               [], eomReason)
         else (status, p1\<lparr>stats := (stats p1)\<lparr>writeReads := writeReads (stats p1) + 1\<rparr>\<rparr>,
               take (inputSize - 1) bytes, eomReason))"

text \<open>The handlers pass \<^verbatim>\<open>&pport->data.eom\<close> as \<^verbatim>\<open>eomReason\<close>.\<close>

definition store_eom :: "int option \<Rightarrow> Port \<Rightarrow> Port" where
  "store_eom e p = (case e of None \<Rightarrow> p | Some v \<Rightarrow> p\<lparr>data := (data p)\<lparr>eom := v\<rparr>\<rparr>)"

subsection \<open>Command tables\<close>

text \<open>The three families of command identifiers. The 6485 file declares the first six
  \<open>gen_cmd\<close> and the \<open>simple_cmd\<close> \<open>RANGE_AUTO_CMD\<close> to \<open>ZERO_CORRECT_ACQUIRE_CMD\<close>;
  the 648x file declares them all.\<close>

datatype gen_cmd =
  VOID_CMD | READ_CMD | RANGE_CMD | RANGE_AUTO_ULIMIT_CMD | RANGE_AUTO_LLIMIT_CMD | RATE_CMD
  | DIGITAL_FILTER_CONTROL_CMD | VOLT_RANGE_CMD

datatype simple_cmd =
  RESET_CMD | RANGE_AUTO_CMD | ZERO_CHECK_CMD | ZERO_CORRECT_CMD | ZERO_CORRECT_ACQUIRE_CMD
  | MEDIAN_FILTER_CMD | MEDIAN_FILTER_RANK_CMD | DIGITAL_FILTER_CMD | DIGITAL_FILTER_COUNT_CMD

datatype cache_cmd =
  TIMESTAMP_CMD | STATUS_RAW_CMD | STATUS_OVERFLOW_CMD | STATUS_FILTER_CMD
  | STATUS_MATH_CMD | STATUS_NULL_CMD | STATUS_LIMITS_CMD
  | STATUS_OVERVOLTAGE_CMD | STATUS_ZERO_CHECK_CMD | STATUS_ZERO_CORRECT_CMD
  | MODEL_CMD | SERIAL_CMD | DIG_REV_CMD | DISP_REV_CMD | BRD_REV_CMD

text \<open>\<^verbatim>\<open>enum { SIMPLE_TRIGGER=0, SIMPLE_OCTET=Octet, SIMPLE_FLOAT64=Float64,
  SIMPLE_INT32=Int32 };\<close> and the comparison \<^verbatim>\<open>type == Iface\<close> of the two enums.\<close>

datatype simple_type = SIMPLE_TRIGGER | SIMPLE_OCTET | SIMPLE_FLOAT64 | SIMPLE_INT32

fun simple_type_eq :: "simple_type \<Rightarrow> Type \<Rightarrow> bool" where
  "simple_type_eq SIMPLE_OCTET Octet = True"
| "simple_type_eq SIMPLE_FLOAT64 Float64 = True"
| "simple_type_eq SIMPLE_INT32 Int32 = True"
| "simple_type_eq _ _ = False"

fun simpleCommandTable :: "simple_cmd \<Rightarrow> simple_type \<times> string" where
  "simpleCommandTable RESET_CMD = (SIMPLE_TRIGGER, ''*RST'')"
| "simpleCommandTable RANGE_AUTO_CMD = (SIMPLE_INT32, '':RANGE:AUTO'')"
| "simpleCommandTable ZERO_CHECK_CMD = (SIMPLE_INT32, ''SYST:ZCH'')"
| "simpleCommandTable ZERO_CORRECT_CMD = (SIMPLE_INT32, ''SYST:ZCOR'')"
| "simpleCommandTable ZERO_CORRECT_ACQUIRE_CMD = (SIMPLE_TRIGGER, ''SYST:ZCOR:ACQ'')"
| "simpleCommandTable MEDIAN_FILTER_CMD = (SIMPLE_INT32, ''MED'')"
| "simpleCommandTable MEDIAN_FILTER_RANK_CMD = (SIMPLE_INT32, ''MED:RANK'')"
| "simpleCommandTable DIGITAL_FILTER_CMD = (SIMPLE_INT32, ''AVER'')"
| "simpleCommandTable DIGITAL_FILTER_COUNT_CMD = (SIMPLE_INT32, ''AVER:COUN'')"

text \<open>An entry's \<^verbatim>\<open>type\<close> and \<^verbatim>\<open>id\<close> together: the family and the identifier in
  it.\<close>

datatype cmd_ref = Gen gen_cmd | Simple simple_cmd | Cache cache_cmd

text \<open>\<^verbatim>\<open>commandTable\<close> of the 6485 file: \<^verbatim>\<open>tag\<close>, and \<^verbatim>\<open>type\<close> with \<^verbatim>\<open>id\<close>.\<close>

definition commandTable_6485 :: "(string \<times> cmd_ref) list" where
  "commandTable_6485 =
    [(''VOID'', Gen VOID_CMD),
     (''READ'', Gen READ_CMD),
     (''RANGE'', Gen RANGE_CMD),
     (''RANGE_AUTO_ULIMIT'', Gen RANGE_AUTO_ULIMIT_CMD),
     (''RANGE_AUTO_LLIMIT'', Gen RANGE_AUTO_LLIMIT_CMD),
     (''RATE'', Gen RATE_CMD),
     (''RANGE_AUTO'', Simple RANGE_AUTO_CMD),
     (''ZERO_CHECK'', Simple ZERO_CHECK_CMD),
     (''ZERO_CORRECT'', Simple ZERO_CORRECT_CMD),
     (''ZERO_CORRECT_ACQUIRE'', Simple ZERO_CORRECT_ACQUIRE_CMD),
     (''MODEL'', Cache MODEL_CMD),
     (''SERIAL'', Cache SERIAL_CMD),
     (''DIG_REV'', Cache DIG_REV_CMD),
     (''DISP_REV'', Cache DISP_REV_CMD),
     (''BRD_REV'', Cache BRD_REV_CMD),
     (''TIMESTAMP'', Cache TIMESTAMP_CMD),
     (''STATUS_RAW'', Cache STATUS_RAW_CMD),
     (''STATUS_OVERFLOW'', Cache STATUS_OVERFLOW_CMD),
     (''STATUS_FILTER'', Cache STATUS_FILTER_CMD),
     (''STATUS_MATH'', Cache STATUS_MATH_CMD),
     (''STATUS_NULL'', Cache STATUS_NULL_CMD),
     (''STATUS_LIMITS'', Cache STATUS_LIMITS_CMD),
     (''STATUS_OVERVOLTAGE'', Cache STATUS_OVERVOLTAGE_CMD),
     (''STATUS_ZERO_CHECK'', Cache STATUS_ZERO_CHECK_CMD),
     (''STATUS_ZERO_CORRECT'', Cache STATUS_ZERO_CORRECT_CMD)]"

text \<open>\<^verbatim>\<open>commandTable\<close> of the 648x file: \<^verbatim>\<open>tag\<close>, \<^verbatim>\<open>dev\<close>, and \<^verbatim>\<open>type\<close> with \<^verbatim>\<open>id\<close>.\<close>

definition commandTable_648x :: "(string \<times> dev \<times> cmd_ref) list" where
  "commandTable_648x =
    [(''VOID'', DEV_ALL, Gen VOID_CMD),
     (''READ'', DEV_ALL, Gen READ_CMD),
     (''RANGE'', DEV_ALL, Gen RANGE_CMD),
     (''RANGE_AUTO_ULIMIT'', DEV_ALL, Gen RANGE_AUTO_ULIMIT_CMD),
     (''RANGE_AUTO_LLIMIT'', DEV_ALL, Gen RANGE_AUTO_LLIMIT_CMD),
     (''RATE'', DEV_ALL, Gen RATE_CMD),
     (''DIGITAL_FILTER_CONTROL'', DEV_ALL, Gen DIGITAL_FILTER_CONTROL_CMD),
     (''VOLT_RANGE'', DEV_6487, Gen VOLT_RANGE_CMD),
     (''RESET'', DEV_ALL, Simple RESET_CMD),
     (''RANGE_AUTO'', DEV_ALL, Simple RANGE_AUTO_CMD),
     (''ZERO_CHECK'', DEV_ALL, Simple ZERO_CHECK_CMD),
     (''ZERO_CORRECT'', DEV_ALL, Simple ZERO_CORRECT_CMD),
     (''ZERO_CORRECT_ACQUIRE'', DEV_ALL, Simple ZERO_CORRECT_ACQUIRE_CMD),
     (''MEDIAN_FILTER'', DEV_ALL, Simple MEDIAN_FILTER_CMD),
     (''MEDIAN_FILTER_RANK'', DEV_ALL, Simple MEDIAN_FILTER_RANK_CMD),
     (''DIGITAL_FILTER'', DEV_ALL, Simple DIGITAL_FILTER_CMD),
     (''DIGITAL_FILTER_COUNT'', DEV_ALL, Simple DIGITAL_FILTER_COUNT_CMD),
     (''MODEL'', DEV_ALL, Cache MODEL_CMD),
     (''SERIAL'', DEV_ALL, Cache SERIAL_CMD),
     (''DIG_REV'', DEV_ALL, Cache DIG_REV_CMD),
     (''DISP_REV'', DEV_ALL, Cache DISP_REV_CMD),
     (''BRD_REV'', DEV_ALL, Cache BRD_REV_CMD),
     (''TIMESTAMP'', DEV_ALL, Cache TIMESTAMP_CMD),
     (''STATUS_RAW'', DEV_ALL, Cache STATUS_RAW_CMD),
     (''STATUS_OVERFLOW'', DEV_ALL, Cache STATUS_OVERFLOW_CMD),
     (''STATUS_FILTER'', DEV_ALL, Cache STATUS_FILTER_CMD),
     (''STATUS_MATH'', DEV_ALL, Cache STATUS_MATH_CMD),
     (''STATUS_NULL'', DEV_ALL, Cache STATUS_NULL_CMD),
     (''STATUS_LIMITS'', DEV_ALL, Cache STATUS_LIMITS_CMD),
     (''STATUS_OVERVOLTAGE'', DEV_ALL, Cache STATUS_OVERVOLTAGE_CMD),
     (''STATUS_ZERO_CHECK'', DEV_ALL, Cache STATUS_ZERO_CHECK_CMD),
     (''STATUS_ZERO_CORRECT'', DEV_ALL, Cache STATUS_ZERO_CORRECT_CMD)]"

text \<open>Which of the two source files a function is taken from.\<close>

datatype driver = K6485 | K648x

definition COMMAND_NUMBER :: "driver \<Rightarrow> nat" where
  "COMMAND_NUMBER drv =
     (case drv of K6485 \<Rightarrow> length commandTable_6485 | K648x \<Rightarrow> length commandTable_648x)"

text \<open>\<^verbatim>\<open>commandTable[which].type\<close> and \<^verbatim>\<open>.id\<close>; \<open>None\<close> when \<open>which\<close> is not an index
  of the table.\<close>

definition command_at :: "driver \<Rightarrow> nat \<Rightarrow> cmd_ref option" where
  "command_at drv which =
     (case drv of
        K6485 \<Rightarrow> (if which < length commandTable_6485
                  then Some (snd (commandTable_6485 ! which)) else None)
      | K648x \<Rightarrow> (if which < length commandTable_648x
                  then Some (snd (snd (commandTable_648x ! which))) else None))"

subsection \<open>Read and write handlers\<close>

text \<open>A handler takes \<^verbatim>\<open>which\<close>, the port, \<^verbatim>\<open>data\<close> (for a write) and the kind \<^verbatim>\<open>Iface\<close> of
  the calling interface, and returns how the call ended, the port after it and what it
  stored through its out-parameters. \<^verbatim>\<open>readDummy\<close> and \<^verbatim>\<open>writeDummy\<close> return success and
  touch nothing.\<close>

definition readDummy :: "Port \<Rightarrow> result" where
  "readDummy pport = (Return asynSuccess, pport, no_output)"

definition writeDummy :: "Port \<Rightarrow> result" where
  "writeDummy pport = (Return asynSuccess, pport, no_output)"

text \<open>\<^verbatim>\<open>readSimpleData\<close>: a trigger, whose type equals no kind, is never read.\<close>

definition readSimpleData :: "simple_cmd \<Rightarrow> Port \<Rightarrow> Type \<Rightarrow> env \<Rightarrow> result" where
  "readSimpleData which pport Iface ev =
     (let (ty, cmd_str) = simpleCommandTable which
      in if \<not> simple_type_eq ty Iface then (Return asynSuccess, pport, no_output)
         else
           (let outBuf = cmd_str @ ''?'';
                (status, p1, inpBuf, e) = writeRead pport outBuf BUFFER_SIZE ev;
                p2 = store_eom e p1
            in if status \<noteq> asynSuccess then (Return status, p2, no_output)
               else
                 (case Iface of
                    Float64 \<Rightarrow>
                      (Return asynSuccess, p2, (Some (Float64_val (atof inpBuf)), None, None))
                  | Int32 \<Rightarrow>
                      (Return asynSuccess, p2, (Some (Int32_val (atoi inpBuf)), None, None))
                  | Octet \<Rightarrow>
                      (Return asynSuccess, p2,
                       (Some (Octet_val (if 39 < length inpBuf then take 39 inpBuf else inpBuf)),
                        None, None)))))"

text \<open>\<^verbatim>\<open>writeSimpleData\<close>: a trigger is sent whatever the kind. A \<open>data\<close> that is not
  of the kind \<open>Iface\<close> names would be read through a pointer of the wrong type. (No
  entry of either table has the text or the float kind, so the commands formatted
  here are a verb and a decimal integer, well within \<^verbatim>\<open>outBuf\<close>.)\<close>

definition writeSimpleData :: "simple_cmd \<Rightarrow> Port \<Rightarrow> val \<Rightarrow> Type \<Rightarrow> env \<Rightarrow> result" where
  "writeSimpleData which pport dat Iface ev =
     (let (ty, cmd_str) = simpleCommandTable which
      in if ty = SIMPLE_TRIGGER then
           (let (status, p1) = writeOnly pport cmd_str ev in (Return status, p1, no_output))
         else if \<not> simple_type_eq ty Iface then (Return asynSuccess, pport, no_output)
         else
           (case (Iface, dat) of
              (Float64, Float64_val v) \<Rightarrow>
                (let (status, p1) = writeOnly pport (cmd_str @ '' '' @ printf_g v) ev
                 in (Return status, p1, no_output))
            | (Int32, Int32_val v) \<Rightarrow>
                (let (status, p1) = writeOnly pport (cmd_str @ '' '' @ printf_d v) ev
                 in (Return status, p1, no_output))
            | (Octet, Octet_val v) \<Rightarrow>
                (let (status, p1) = writeOnly pport (cmd_str @ '' '' @ v) ev
                 in (Return status, p1, no_output))
            | _ \<Rightarrow> (Undefined, pport, no_output)))"

text \<open>\<^verbatim>\<open>readCache\<close>. \<open>char_cache\<close> is the inner \<^verbatim>\<open>switch\<close> of the \<^verbatim>\<open>Octet\<close> case: the
  pointer starts as \<^verbatim>\<open>NULL\<close> and only the five identification commands set it.
  \<open>int_cache\<close> is the inner \<^verbatim>\<open>switch\<close> of the \<^verbatim>\<open>Int32\<close> case: the value stored through
  \<^verbatim>\<open>data\<close>, if any.\<close>

fun char_cache :: "cache_cmd \<Rightarrow> Port \<Rightarrow> string option" where
  "char_cache MODEL_CMD pport = Some (model pport)"
| "char_cache SERIAL_CMD pport = serial pport"
| "char_cache DIG_REV_CMD pport = dig_rev pport"
| "char_cache DISP_REV_CMD pport = disp_rev pport"
| "char_cache BRD_REV_CMD pport = brd_rev pport"
| "char_cache _ pport = None"

fun int_cache :: "cache_cmd \<Rightarrow> Port \<Rightarrow> int option" where
  "int_cache TIMESTAMP_CMD pport = Some (timestamp (data pport))"
| "int_cache STATUS_RAW_CMD pport = Some (status_raw (data pport))"
| "int_cache STATUS_OVERFLOW_CMD pport = Some (bits_overflow (status_raw (data pport)))"
| "int_cache STATUS_FILTER_CMD pport = Some (bits_filter_enabled (status_raw (data pport)))"
| "int_cache STATUS_MATH_CMD pport = Some (bits_math_enabled (status_raw (data pport)))"
| "int_cache STATUS_NULL_CMD pport = Some (bits_null_enabled (status_raw (data pport)))"
| "int_cache STATUS_LIMITS_CMD pport =
     (if bits_limit_test (status_raw (data pport)) \<noteq> 0
      then Some (bits_limit_result (status_raw (data pport)))
      else Some 3)"
| "int_cache STATUS_OVERVOLTAGE_CMD pport = Some (bits_overvoltage (status_raw (data pport)))"
| "int_cache STATUS_ZERO_CHECK_CMD pport =
     Some (bits_zero_check_enabled (status_raw (data pport)))"
| "int_cache STATUS_ZERO_CORRECT_CMD pport =
     Some (bits_zero_correct_enabled (status_raw (data pport)))"
| "int_cache _ pport = None"

definition readCache :: "cache_cmd \<Rightarrow> Port \<Rightarrow> Type \<Rightarrow> result" where
  "readCache which pport Iface =
     (case Iface of
        Octet \<Rightarrow>
          (case char_cache which pport of
             None \<Rightarrow> (Undefined, pport, no_output)
           | Some s \<Rightarrow>
               (let len = length s
                in if len < 40
                   then (Return asynSuccess, pport, (Some (Octet_val s), Some len, Some 0))
                   else (Return asynSuccess, pport,
                         (Some (Octet_val (take 39 s)), Some 39, Some 0))))
      | Float64 \<Rightarrow> (Return asynSuccess, pport, no_output)
      | Int32 \<Rightarrow>
          (Return asynSuccess, pport, (map_option Int32_val (int_cache which pport), None, None)))"

text \<open>\<^verbatim>\<open>readSensorReading\<close>. The loop
  \<^verbatim>\<open>for( pass = 0; pass < 3; pass++, str = NULL) { token[pass] = epicsStrtok_r(str, ",", &saveptr); if (token == NULL) break; }\<close>
  tests \<open>token\<close>, the array itself, whose address is never \<^verbatim>\<open>NULL\<close>. For the text kind
  the handler prints the first token into the caller's buffer, whose size it is not
  given; the model takes that buffer to hold the token, and no theorem about an
  arbitrary reply is stated for the text kind.\<close>

definition token_is_NULL :: "string option list \<Rightarrow> bool" where
  "token_is_NULL token = False"

function tok_loop ::
  "nat \<Rightarrow> string option \<Rightarrow> string option \<Rightarrow> string option list \<Rightarrow> nat \<times> string option list"
  where
  "tok_loop pass str saveptr token =
     (if pass < 3 then
        (let (t, saveptr') = epicsStrtok_r str '','' saveptr;
             token' = token[pass := t]
         in if token_is_NULL token' then (pass, token')
            else tok_loop (pass + 1) None saveptr' token')
      else (pass, token))"
  by pat_completeness auto
termination
  by (relation "measure (\<lambda>(pass, str, saveptr, token). 3 - pass)") auto

declare tok_loop.simps [simp del]

definition readSensorReading :: "Port \<Rightarrow> Type \<Rightarrow> env \<Rightarrow> result" where
  "readSensorReading pport Iface ev =
     (let (status, p0, inpBuf, e) = writeRead pport ''READ?'' BUFFER_SIZE ev;
          p1 = store_eom e p0
      in if status \<noteq> asynSuccess then (Return status, p1, no_output)
         else
           (let (pass, token) = tok_loop 0 (Some inpBuf) None [None, None, None]
            in if pass \<noteq> 3 then (Return asynError, p1, no_output)
               else
                 (case token ! 0 of
                    None \<Rightarrow> (Undefined, p1, no_output)
                  | Some t0 \<Rightarrow>
                 (let p2 = p1\<lparr>data := (data p1)\<lparr>reading := atof t0\<rparr>\<rparr>
                  in case token ! 1 of
                       None \<Rightarrow> (Undefined, p2, no_output)
                     | Some t1 \<Rightarrow>
                 (case double_to_int (atof t1) of
                    None \<Rightarrow> (Undefined, p2, no_output)
                  | Some ts \<Rightarrow>
                 (let p3 = p2\<lparr>data := (data p2)\<lparr>timestamp := ts\<rparr>\<rparr>
                  in case token ! 2 of
                       None \<Rightarrow> (Undefined, p3, no_output)
                     | Some t2 \<Rightarrow>
                 (case double_to_int (atof t2) of
                    None \<Rightarrow> (Undefined, p3, no_output)
                  | Some raw \<Rightarrow>
                 (let p4 = p3\<lparr>data := (data p3)\<lparr>status_raw := raw\<rparr>\<rparr>
                  in case Iface of
                       Octet \<Rightarrow>
                         (Return asynSuccess, p4,
                          (Some (Octet_val t0), Some (length t0), Some (eom (data p4))))
                     | Float64 \<Rightarrow>
                         (Return asynSuccess, p4,
                          (Some (Float64_val (reading (data p4))), None, None))
                     | Int32 \<Rightarrow> (Return asynSuccess, p4, no_output)))))))))"

text \<open>\<^verbatim>\<open>readRange\<close> and \<^verbatim>\<open>writeRange\<close>. \<open>range_query\<close> and \<open>range_command\<close> are their
  \<^verbatim>\<open>switch( which)\<close>, \<open>None\<close> for \<^verbatim>\<open>default\<close>.\<close>

fun range_query :: "gen_cmd \<Rightarrow> string option" where
  "range_query RANGE_CMD = Some '':RANGE?''"
| "range_query RANGE_AUTO_ULIMIT_CMD = Some '':RANGE:AUTO:ULIM?''"
| "range_query RANGE_AUTO_LLIMIT_CMD = Some '':RANGE:AUTO:LLIM?''"
| "range_query _ = None"

definition readRange :: "gen_cmd \<Rightarrow> Port \<Rightarrow> Type \<Rightarrow> env \<Rightarrow> result" where
  "readRange which pport Iface ev =
     (if Iface = Octet then (Return asynSuccess, pport, no_output)
      else
        (case range_query which of
           None \<Rightarrow> (Return asynError, pport, no_output)
         | Some q \<Rightarrow>
             (let (status, p0, inpBuf, e) = writeRead pport q BUFFER_SIZE ev;
                  p1 = store_eom e p0
              in if status \<noteq> asynSuccess then (Return status, p1, no_output)
                 else if Iface = Float64 then
                   (let v = atof inpBuf
                    in if v = 0 then (Return asynError, p1, no_output)
                       else (Return asynSuccess, p1, (Some (Float64_val v), None, None)))
                 else
                   (case strchr inpBuf (CHR ''E'') of
                      None \<Rightarrow> (Return asynError, p1, no_output)
                    | Some p \<Rightarrow>
                        (Return asynSuccess, p1,
                         (Some (Int32_val (9 + atoi (tl p))), None, None))))))"

fun range_command :: "gen_cmd \<Rightarrow> int \<Rightarrow> string option" where
  "range_command RANGE_CMD v = Some ('':RANGE 2.0e'' @ printf_d (- 9 + v))"
| "range_command RANGE_AUTO_ULIMIT_CMD v = Some ('':RANGE:AUTO:ULIM 2.0e'' @ printf_d (- 9 + v))"
| "range_command RANGE_AUTO_LLIMIT_CMD v = Some ('':RANGE:AUTO:LLIM 2.0e'' @ printf_d (- 9 + v))"
| "range_command _ v = None"

definition writeRange :: "gen_cmd \<Rightarrow> Port \<Rightarrow> val \<Rightarrow> Type \<Rightarrow> env \<Rightarrow> result" where
  "writeRange which pport dat Iface ev =
     (if Iface \<noteq> Int32 then (Return asynSuccess, pport, no_output)
      else
        (case dat of
           Int32_val v \<Rightarrow>
             (if v < 0 \<or> 7 < v then (Return asynError, pport, no_output)
              else
                (case range_command which v of
                   None \<Rightarrow> (Return asynError, pport, no_output)
                 | Some outBuf \<Rightarrow>
                     (let (status, p1) = writeOnly pport outBuf ev
                      in (Return status, p1, no_output))))
         | _ \<Rightarrow> (Undefined, pport, no_output)))"

text \<open>\<^verbatim>\<open>readRate\<close> of the 6485 file. The local \<^verbatim>\<open>int rate\<close> is declared without a value
  and the second test reads it, \<^verbatim>\<open>else if( rate > 0.1)\<close>, before anything is
  stored in it: \<open>rate0\<close> is the value it holds then.\<close>

definition readRate_6485 :: "int \<Rightarrow> Port \<Rightarrow> Type \<Rightarrow> env \<Rightarrow> result" where
  "readRate_6485 rate0 pport Iface ev =
     (if Iface \<noteq> Int32 then (Return asynSuccess, pport, no_output)
      else
        (let (status, p0, inpBuf, e) = writeRead pport '':NPLC?'' BUFFER_SIZE ev;
             p1 = store_eom e p0
         in if status \<noteq> asynSuccess then (Return status, p1, no_output)
            else
              (let v = atof inpBuf;
                   rate = (if 1.0 < v then 0
                           else if 0.1 < real_of_int rate0 then 1
                           else 2)
               in (Return asynSuccess, p1, (Some (Int32_val rate), None, None)))))"

text \<open>\<^verbatim>\<open>readRate\<close> of the 648x file: \<^verbatim>\<open>else if( val > 0.1)\<close>.\<close>

definition readRate_648x :: "Port \<Rightarrow> Type \<Rightarrow> env \<Rightarrow> result" where
  "readRate_648x pport Iface ev =
     (if Iface \<noteq> Int32 then (Return asynSuccess, pport, no_output)
      else
        (let (status, p0, inpBuf, e) = writeRead pport '':NPLC?'' BUFFER_SIZE ev;
             p1 = store_eom e p0
         in if status \<noteq> asynSuccess then (Return status, p1, no_output)
            else
              (let v = atof inpBuf;
                   rate = (if 1.0 < v then 0
                           else if 0.1 < v then 1
                           else 2)
               in (Return asynSuccess, p1, (Some (Int32_val rate), None, None)))))"

text \<open>\<^verbatim>\<open>writeRate\<close>. \<open>rate_nplc\<close> is its \<^verbatim>\<open>switch( rate)\<close>; the last equation is the
  \<^verbatim>\<open>default\<close> of the 648x file, which the range test before the \<^verbatim>\<open>switch\<close> makes
  unreachable in both files.\<close>

fun rate_nplc :: "int \<Rightarrow> real" where
  "rate_nplc rate = (if rate = 0 then 6.0 else if rate = 1 then 1.0 else if rate = 2 then 0.1
                     else 1.0)"

definition writeRate :: "Port \<Rightarrow> val \<Rightarrow> Type \<Rightarrow> env \<Rightarrow> result" where
  "writeRate pport dat Iface ev =
     (if Iface \<noteq> Int32 then (Return asynSuccess, pport, no_output)
      else
        (case dat of
           Int32_val rate \<Rightarrow>
             (if rate < 0 \<or> 2 < rate then (Return asynError, pport, no_output)
              else
                (let (status, p1) = writeOnly pport ('':NPLC '' @ printf_g (rate_nplc rate)) ev
                 in (Return status, p1, no_output)))
         | _ \<Rightarrow> (Undefined, pport, no_output)))"

text \<open>\<^verbatim>\<open>readCommon\<close> and \<^verbatim>\<open>writeCommon\<close> (648x file). Their \<^verbatim>\<open>switch(which)\<close> has the one
  case \<^verbatim>\<open>DIGITAL_FILTER_CONTROL_CMD\<close> and no \<^verbatim>\<open>default\<close>: for another \<open>which\<close>,
  \<^verbatim>\<open>readCommon\<close> stores its uninitialised \<^verbatim>\<open>int val\<close> (\<open>val0\<close>) and \<^verbatim>\<open>writeCommon\<close>
  sends its uninitialised \<^verbatim>\<open>outBuf\<close>.\<close>

definition readCommon :: "int \<Rightarrow> gen_cmd \<Rightarrow> Port \<Rightarrow> Type \<Rightarrow> env \<Rightarrow> result" where
  "readCommon val0 which pport Iface ev =
     (if Iface \<noteq> Int32 then (Return asynSuccess, pport, no_output)
      else if which = DIGITAL_FILTER_CONTROL_CMD then
        (let (status, p0, inpBuf, e) = writeRead pport ''AVER:TCON?'' BUFFER_SIZE ev;
             p1 = store_eom e p0
         in if status \<noteq> asynSuccess then (Return status, p1, no_output)
            else if inpBuf = ''MOV'' then
              (Return asynSuccess, p1, (Some (Int32_val 0), None, None))
            else if inpBuf = ''REP'' then
              (Return asynSuccess, p1, (Some (Int32_val 1), None, None))
            else (Return asynError, p1, no_output))
      else (Return asynSuccess, pport, (Some (Int32_val val0), None, None)))"

definition writeCommon :: "gen_cmd \<Rightarrow> Port \<Rightarrow> val \<Rightarrow> Type \<Rightarrow> env \<Rightarrow> result" where
  "writeCommon which pport dat Iface ev =
     (if Iface \<noteq> Int32 then (Return asynSuccess, pport, no_output)
      else
        (case dat of
           Int32_val v \<Rightarrow>
             (if which = DIGITAL_FILTER_CONTROL_CMD then
                (if v = 0 then
                   (let (status, p1) = writeOnly pport ''AVER:TCON MOV'' ev
                    in (Return status, p1, no_output))
                 else if v = 1 then
                   (let (status, p1) = writeOnly pport ''AVER:TCON REP'' ev
                    in (Return status, p1, no_output))
                 else (Return asynError, pport, no_output))
              else (Undefined, pport, no_output))
         | _ \<Rightarrow> (Undefined, pport, no_output)))"

subsection \<open>Dispatch\<close>

text \<open>\<^verbatim>\<open>genCommandTable[id].readFunc(id, ...)\<close> and \<^verbatim>\<open>genCommandTable[id].writeFunc(id, ...)\<close>
  (\<open>id0\<close> is the source's \<^verbatim>\<open>id\<close>).
  The table of the 6485 file ends at \<^verbatim>\<open>RATE_CMD\<close>.\<close>

definition genCommandTable_readFunc ::
  "driver \<Rightarrow> gen_cmd \<Rightarrow> Port \<Rightarrow> Type \<Rightarrow> env \<Rightarrow> result" where
  "genCommandTable_readFunc drv id0 pport Iface ev =
     (case id0 of
        VOID_CMD \<Rightarrow> readDummy pport
      | READ_CMD \<Rightarrow> readSensorReading pport Iface ev
      | RANGE_CMD \<Rightarrow> readRange id0 pport Iface ev
      | RANGE_AUTO_ULIMIT_CMD \<Rightarrow> readRange id0 pport Iface ev
      | RANGE_AUTO_LLIMIT_CMD \<Rightarrow> readRange id0 pport Iface ev
      | RATE_CMD \<Rightarrow>
          (case drv of
             K6485 \<Rightarrow> readRate_6485 (uninit_int ev) pport Iface ev
           | K648x \<Rightarrow> readRate_648x pport Iface ev)
      | _ \<Rightarrow>
          (case drv of
             K6485 \<Rightarrow> (Undefined, pport, no_output)
           | K648x \<Rightarrow> readCommon (uninit_int ev) id0 pport Iface ev))"

definition genCommandTable_writeFunc ::
  "driver \<Rightarrow> gen_cmd \<Rightarrow> Port \<Rightarrow> val \<Rightarrow> Type \<Rightarrow> env \<Rightarrow> result" where
  "genCommandTable_writeFunc drv id0 pport dat Iface ev =
     (case id0 of
        VOID_CMD \<Rightarrow> writeDummy pport
      | READ_CMD \<Rightarrow> writeDummy pport
      | RANGE_CMD \<Rightarrow> writeRange id0 pport dat Iface ev
      | RANGE_AUTO_ULIMIT_CMD \<Rightarrow> writeRange id0 pport dat Iface ev
      | RANGE_AUTO_LLIMIT_CMD \<Rightarrow> writeRange id0 pport dat Iface ev
      | RATE_CMD \<Rightarrow> writeRate pport dat Iface ev
      | _ \<Rightarrow>
          (case drv of
             K6485 \<Rightarrow> (Undefined, pport, no_output)
           | K648x \<Rightarrow> writeCommon id0 pport dat Iface ev))"

text \<open>The six interface methods. \<open>which\<close> is \<^verbatim>\<open>pasynUser->reason\<close>; the entry
  \<^verbatim>\<open>commandTable[which]\<close> is read before \<^verbatim>\<open>init\<close> is tested. A write to a command of
  the cache family matches no \<^verbatim>\<open>case\<close> of the \<^verbatim>\<open>switch\<close> and falls through to the final
  \<^verbatim>\<open>return asynSuccess\<close>.\<close>

definition writeFloat64 :: "driver \<Rightarrow> Port \<Rightarrow> nat \<Rightarrow> real \<Rightarrow> env \<Rightarrow> result" where
  "writeFloat64 drv pport which v ev =
     (case command_at drv which of
        None \<Rightarrow> (Undefined, pport, no_output)
      | Some c \<Rightarrow>
          if init pport = 0 then (Return asynError, pport, no_output)
          else
            (case c of
               Gen id0 \<Rightarrow> genCommandTable_writeFunc drv id0 pport (Float64_val v) Float64 ev
             | Simple id0 \<Rightarrow> writeSimpleData id0 pport (Float64_val v) Float64 ev
             | Cache id0 \<Rightarrow> (Return asynSuccess, pport, no_output)))"

definition readFloat64 :: "driver \<Rightarrow> Port \<Rightarrow> nat \<Rightarrow> env \<Rightarrow> result" where
  "readFloat64 drv pport which ev =
     (case command_at drv which of
        None \<Rightarrow> (Undefined, pport, no_output)
      | Some c \<Rightarrow>
          if init pport = 0 then (Return asynError, pport, no_output)
          else
            (case c of
               Gen id0 \<Rightarrow> genCommandTable_readFunc drv id0 pport Float64 ev
             | Simple id0 \<Rightarrow> readSimpleData id0 pport Float64 ev
             | Cache id0 \<Rightarrow> readCache id0 pport Float64))"

definition writeInt32 :: "driver \<Rightarrow> Port \<Rightarrow> nat \<Rightarrow> int \<Rightarrow> env \<Rightarrow> result" where
  "writeInt32 drv pport which v ev =
     (case command_at drv which of
        None \<Rightarrow> (Undefined, pport, no_output)
      | Some c \<Rightarrow>
          if init pport = 0 then (Return asynError, pport, no_output)
          else
            (case c of
               Gen id0 \<Rightarrow> genCommandTable_writeFunc drv id0 pport (Int32_val v) Int32 ev
             | Simple id0 \<Rightarrow> writeSimpleData id0 pport (Int32_val v) Int32 ev
             | Cache id0 \<Rightarrow> (Return asynSuccess, pport, no_output)))"

definition readInt32 :: "driver \<Rightarrow> Port \<Rightarrow> nat \<Rightarrow> env \<Rightarrow> result" where
  "readInt32 drv pport which ev =
     (case command_at drv which of
        None \<Rightarrow> (Undefined, pport, no_output)
      | Some c \<Rightarrow>
          if init pport = 0 then (Return asynError, pport, no_output)
          else
            (case c of
               Gen id0 \<Rightarrow> genCommandTable_readFunc drv id0 pport Int32 ev
             | Simple id0 \<Rightarrow> readSimpleData id0 pport Int32 ev
             | Cache id0 \<Rightarrow> readCache id0 pport Int32))"

text \<open>\<^verbatim>\<open>writeOctet\<close> stores \<^verbatim>\<open>strlen(data)\<close> in \<^verbatim>\<open>*nbytes\<close> before it calls a handler of the
  first two families; it gives \<^verbatim>\<open>writeSimpleData\<close> the address of its own pointer
  (\<^verbatim>\<open>&data\<close>).\<close>

definition with_nbytes :: "nat \<Rightarrow> result \<Rightarrow> result" where
  "with_nbytes n r = (case r of (oc, p, (d, l, e)) \<Rightarrow> (oc, p, (d, Some n, e)))"

definition writeOctet :: "driver \<Rightarrow> Port \<Rightarrow> nat \<Rightarrow> string \<Rightarrow> env \<Rightarrow> result" where
  "writeOctet drv pport which dat ev =
     (case command_at drv which of
        None \<Rightarrow> (Undefined, pport, no_output)
      | Some c \<Rightarrow>
          if init pport = 0 then (Return asynError, pport, no_output)
          else
            (case c of
               Gen id0 \<Rightarrow>
                 with_nbytes (length dat)
                   (genCommandTable_writeFunc drv id0 pport (Octet_val dat) Octet ev)
             | Simple id0 \<Rightarrow>
                 with_nbytes (length dat)
                   (writeSimpleData id0 pport (Octet_ptr_val dat) Octet ev)
             | Cache id0 \<Rightarrow> (Return asynSuccess, pport, no_output)))"

definition readOctet :: "driver \<Rightarrow> Port \<Rightarrow> nat \<Rightarrow> env \<Rightarrow> result" where
  "readOctet drv pport which ev =
     (case command_at drv which of
        None \<Rightarrow> (Undefined, pport, no_output)
      | Some c \<Rightarrow>
          if init pport = 0 then (Return asynError, pport, no_output)
          else
            (case c of
               Gen id0 \<Rightarrow> genCommandTable_readFunc drv id0 pport Octet ev
             | Simple id0 \<Rightarrow> readSimpleData id0 pport Octet ev
             | Cache id0 \<Rightarrow> readCache id0 pport Octet))"

subsection \<open>Binding a name: \<^verbatim>\<open>create\<close>\<close>

text \<open>The line \<^verbatim>\<open>create\<close> prints with \<^verbatim>\<open>errlogPrintf\<close>. It goes to the error log of the
  IOC; the caller of \<^verbatim>\<open>create\<close> receives the returned status and
  \<^verbatim>\<open>pasynUser->reason\<close> only.\<close>

datatype errlog = failed_to_find_tag string | tag_is_for_different_device string

text \<open>\<^verbatim>\<open>create\<close> of the 6485 file: the loop over \<^verbatim>\<open>commandTable\<close> from index \<open>i\<close>, with
  the test \<^verbatim>\<open>i == COMMAND_NUMBER\<close> that follows it as the case of the exhausted table.
  Returns the status, \<^verbatim>\<open>pasynUser->reason\<close> and the line logged.\<close>

fun create_loop_6485 ::
  "string \<Rightarrow> (string \<times> cmd_ref) list \<Rightarrow> nat \<Rightarrow> asynStatus \<times> nat \<times> errlog option" where
  "create_loop_6485 drvInfo [] i = (asynError, 0, Some (failed_to_find_tag drvInfo))"
| "create_loop_6485 drvInfo ((tag, c) # rest) i =
     (if epicsStrCaseCmp_eq drvInfo tag then (asynSuccess, i, None)
      else create_loop_6485 drvInfo rest (i + 1))"

definition create_6485 :: "Port \<Rightarrow> string \<Rightarrow> asynStatus \<times> nat \<times> errlog option" where
  "create_6485 pport drvInfo = create_loop_6485 drvInfo commandTable_6485 0"

text \<open>\<^verbatim>\<open>create\<close> of the 648x file: on the first tag that matches, the entry's \<^verbatim>\<open>dev\<close> is
  compared with the port's \<^verbatim>\<open>devtype\<close>.\<close>

fun create_loop_648x ::
  "dev \<Rightarrow> string \<Rightarrow> (string \<times> dev \<times> cmd_ref) list \<Rightarrow> nat \<Rightarrow> asynStatus \<times> nat \<times> errlog option"
  where
  "create_loop_648x dt drvInfo [] i = (asynError, 0, Some (failed_to_find_tag drvInfo))"
| "create_loop_648x dt drvInfo ((tag, d, c) # rest) i =
     (if epicsStrCaseCmp_eq drvInfo tag then
        (if d \<noteq> DEV_ALL \<and> d \<noteq> dt
         then (asynError, 0, Some (tag_is_for_different_device drvInfo))
         else (asynSuccess, i, None))
      else create_loop_648x dt drvInfo rest (i + 1))"

definition create_648x :: "Port \<Rightarrow> string \<Rightarrow> asynStatus \<times> nat \<times> errlog option" where
  "create_648x pport drvInfo = create_loop_648x (devtype pport) drvInfo commandTable_648x 0"

subsection \<open>Connection setup\<close>

text \<open>The port after \<^verbatim>\<open>callocMustSucceed\<close>: every field zero.\<close>

definition calloc_Port :: Port where
  "calloc_Port =
     \<lparr>devtype = DEV_ALL, init = 0, model = [], serial = None, dig_rev = None,
      disp_rev = None, brd_rev = None,
      stats = \<lparr>ioErrors = 0, writeReads = 0, writeOnlys = 0\<rparr>,
      data = \<lparr>reading = 0, timestamp = 0, status_raw = 0, eom = 0\<rparr>,
      wire = []\<rparr>"

text \<open>The splitting of the identification reply, after \<^verbatim>\<open>strcpy(pport->model,inpBuf)\<close>:
  five calls of \<^verbatim>\<open>strchr\<close>, the first two for \<open>,\<close> one after the other, each later
  result overwritten with NUL and stepped over. No result is tested: \<open>None\<close> stands for
  the dereference of a \<^verbatim>\<open>NULL\<close> that \<^verbatim>\<open>strchr\<close> returned. Otherwise the five strings
  \<open>model\<close>, \<open>serial\<close>, \<open>dig_rev\<close>, \<open>disp_rev\<close> and \<open>brd_rev\<close>.\<close>

definition before :: "string \<Rightarrow> string \<Rightarrow> string" where
  "before s p = take (length s - length p) s"

definition split_identification ::
  "string \<Rightarrow> (string \<times> string \<times> string \<times> string \<times> string) option" where
  "split_identification buf =
     (case strchr buf (CHR '','') of
        None \<Rightarrow> None
      | Some s1 \<Rightarrow>
     (case strchr (tl s1) (CHR '','') of
        None \<Rightarrow> None
      | Some s2 \<Rightarrow>
     (let serial0 = tl s2
      in case strchr serial0 (CHR '','') of
           None \<Rightarrow> None
         | Some s3 \<Rightarrow>
     (let dig0 = tl s3
      in case strchr dig0 (CHR ''/'') of
           None \<Rightarrow> None
         | Some s4 \<Rightarrow>
     (let disp0 = tl s4
      in case strchr disp0 (CHR ''/'') of
           None \<Rightarrow> None
         | Some s5 \<Rightarrow>
             Some (before buf s2, before serial0 s3, before dig0 s4, before disp0 s5,
                   tl s5))))))"

text \<open>The statuses of the three calls into asyn that precede any I/O:
  \<^verbatim>\<open>pasynOctetSyncIO->connect\<close>, \<^verbatim>\<open>pasynManager->registerPort\<close> and
  \<^verbatim>\<open>pasynStandardInterfacesBase->initialize\<close>.\<close>

record asyn_setup =
  connect_status :: asynStatus
  registerPort_status :: asynStatus
  initialize_status :: asynStatus

text \<open>The part of the constructor that both files share, from the \<^verbatim>\<open>connect\<close> call on
  (without the \<^verbatim>\<open>#ifdef vxWorks\<close> block).\<close>

definition setup_port :: "Port \<Rightarrow> asyn_setup \<Rightarrow> env \<Rightarrow> outcome \<times> Port" where
  "setup_port pport su ev =
     (if connect_status su \<noteq> asynSuccess then (Return asynError, pport)
      else if registerPort_status su \<noteq> asynSuccess then (Return asynError, pport)
      else if initialize_status su \<noteq> asynSuccess then (Return asynError, pport)
      else
        (let (st1, p1) = writeOnly pport ''*CLS'' ev
         in if st1 \<noteq> asynSuccess then (Return asynError, p1)
            else
              (let (st2, p2, inpBuf, eomReason) = writeRead p1 ''*IDN?'' BUFFER_SIZE ev
               in if st2 \<noteq> asynSuccess then (Return asynError, p2)
                  else
                    (case split_identification inpBuf of
                       None \<Rightarrow> (Undefined, p2\<lparr>model := inpBuf\<rparr>)
                     | Some (m, s, dg, ds, br) \<Rightarrow>
                         (Return asynSuccess,
                          p2\<lparr>model := m, serial := Some s, dig_rev := Some dg,
                             disp_rev := Some ds, brd_rev := Some br, init := 1,
                             data := (data p2)\<lparr>reading := 0, timestamp := 0,
                                                status_raw := 0\<rparr>\<rparr>)))))"

text \<open>\<^verbatim>\<open>drvAsynKeithley6485(myport, ioport, ioaddr)\<close>.\<close>

definition drvAsynKeithley6485 :: "asyn_setup \<Rightarrow> env \<Rightarrow> outcome \<times> Port" where
  "drvAsynKeithley6485 su ev = setup_port calloc_Port su ev"

text \<open>\<^verbatim>\<open>drvAsynKeithley648x(type, myport, ioport, ioaddr)\<close>.\<close>

definition drvAsynKeithley648x :: "string \<Rightarrow> asyn_setup \<Rightarrow> env \<Rightarrow> outcome \<times> Port" where
  "drvAsynKeithley648x type su ev =
     (let p0 = calloc_Port\<lparr>devtype := DEV_ALL\<rparr>;
          p1 = (if type = ''6485'' then p0\<lparr>devtype := DEV_6485\<rparr> else p0);
          p2 = (if type = ''6487'' then p1\<lparr>devtype := DEV_6487\<rparr> else p1)
      in if devtype p2 = DEV_ALL then (Return asynError, p2)
         else setup_port p2 su ev)"

text \<open>The snapshot of the last sensor reading: reading, timestamp and raw status.\<close>

definition last_reading :: "Port \<Rightarrow> real \<times> int \<times> int" where
  "last_reading p = (reading (data p), timestamp (data p), status_raw (data p))"

subsection \<open>Accesses by the host, and what is observed of a call\<close>

definition outcome_of :: "result \<Rightarrow> outcome" where
  "outcome_of r = fst r"

definition port_of :: "result \<Rightarrow> Port" where
  "port_of r = fst (snd r)"

definition outputs_of :: "result \<Rightarrow> outputs" where
  "outputs_of r = snd (snd r)"

text \<open>A parameter access: one of the six interface methods, with the value of a
  write.\<close>

datatype access =
  ReadOctet | ReadFloat64 | ReadInt32 | WriteOctet string | WriteFloat64 real | WriteInt32 int

definition do_access :: "driver \<Rightarrow> Port \<Rightarrow> nat \<Rightarrow> access \<Rightarrow> env \<Rightarrow> result" where
  "do_access drv pport which a ev =
     (case a of
        ReadOctet \<Rightarrow> readOctet drv pport which ev
      | ReadFloat64 \<Rightarrow> readFloat64 drv pport which ev
      | ReadInt32 \<Rightarrow> readInt32 drv pport which ev
      | WriteOctet s \<Rightarrow> writeOctet drv pport which s ev
      | WriteFloat64 v \<Rightarrow> writeFloat64 drv pport which v ev
      | WriteInt32 v \<Rightarrow> writeInt32 drv pport which v ev)"

fun is_write :: "access \<Rightarrow> bool" where
  "is_write (WriteOctet s) = True"
| "is_write (WriteFloat64 v) = True"
| "is_write (WriteInt32 v) = True"
| "is_write _ = False"


text \<open>A failed exchange, as \<^verbatim>\<open>writeOnly\<close> and \<^verbatim>\<open>writeRead\<close> judge it: the transport reports
  a status other than success (a timeout is one), or it wrote a number of bytes other
  than the length of the request.\<close>

definition write_fails :: "env \<Rightarrow> string \<Rightarrow> bool" where
  "write_fails ev req =
     (case octet_write ev req of (st, nActual) \<Rightarrow> st \<noteq> asynSuccess \<or> nActual \<noteq> length req)"

definition writeRead_fails :: "env \<Rightarrow> string \<Rightarrow> bool" where
  "writeRead_fails ev req =
     (case octet_writeRead ev req of
        (st, nWrite, bytes, e) \<Rightarrow> st \<noteq> asynSuccess \<or> nWrite \<noteq> length req)"

fun exchange_fails :: "env \<Rightarrow> exchange \<Rightarrow> bool" where
  "exchange_fails ev (Write req) = write_fails ev req"
| "exchange_fails ev (WriteRead req) = writeRead_fails ev req"

text \<open>What every handler does with the transport: nothing, and then the port is as it
  was; or one exchange, and if that exchange fails the error counter has gone up by
  one, the last reading is as it was and a status other than success is returned.\<close>

definition one_exchange :: "Port \<Rightarrow> env \<Rightarrow> result \<Rightarrow> bool" where
  "one_exchange p ev R =
     (port_of R = p \<or>
      (\<exists>x. wire (port_of R) = wire p @ [x] \<and>
         (exchange_fails ev x \<longrightarrow>
            ioErrors (stats (port_of R)) = ioErrors (stats p) + 1
            \<and> last_reading (port_of R) = last_reading p
            \<and> (\<exists>st. outcome_of R = Return st \<and> st \<noteq> asynSuccess))))"

text \<open>A call that returns success, leaves the port as it was (its \<open>wire\<close> included, so
  nothing was sent) and stores nothing through \<^verbatim>\<open>data\<close>.\<close>

definition silent_no_op :: "Port \<Rightarrow> result \<Rightarrow> bool" where
  "silent_no_op p R =
     (outcome_of R = Return asynSuccess \<and> port_of R = p \<and> fst (outputs_of R) = None)"


text \<open>The entry of the 648x table that a name matches first, and what the caller of
  \<^verbatim>\<open>create\<close> receives: the status and \<^verbatim>\<open>pasynUser->reason\<close>.\<close>

definition find_tag_648x :: "string \<Rightarrow> (string \<times> dev \<times> cmd_ref) option" where
  "find_tag_648x n = find (\<lambda>(tag, d, c). epicsStrCaseCmp_eq n tag) commandTable_648x"

definition caller_view :: "asynStatus \<times> nat \<times> errlog option \<Rightarrow> asynStatus \<times> nat" where
  "caller_view r = (fst r, fst (snd r))"

text \<open>A constructor that returned success with the port initialised and the five
  identification strings as given.\<close>

definition identified ::
  "outcome \<times> Port \<Rightarrow> string \<Rightarrow> string \<Rightarrow> string \<Rightarrow> string \<Rightarrow> string \<Rightarrow> bool" where
  "identified r m s dg ds br =
     (fst r = Return asynSuccess \<and> init (snd r) = 1 \<and> model (snd r) = m
      \<and> serial (snd r) = Some s \<and> dig_rev (snd r) = Some dg
      \<and> disp_rev (snd r) = Some ds \<and> brd_rev (snd r) = Some br)"

subsection \<open>Sample environments and ports\<close>

text \<open>A transport on which every exchange succeeds, with the same reply \<open>r\<close> to every
  query; and one on which every exchange times out.\<close>

definition reply_env :: "string \<Rightarrow> env" where
  "reply_env r =
     \<lparr>octet_write = (\<lambda>req. (asynSuccess, length req)),
      octet_writeRead = (\<lambda>req. (asynSuccess, length req, r, None)),
      uninit_int = 0\<rparr>"

definition failing_env :: env where
  "failing_env =
     \<lparr>octet_write = (\<lambda>req. (asynTimeout, length req)),
      octet_writeRead = (\<lambda>req. (asynTimeout, length req, [], None)),
      uninit_int = 0\<rparr>"

definition su_ok :: asyn_setup where
  "su_ok = \<lparr>connect_status = asynSuccess, registerPort_status = asynSuccess,
            initialize_status = asynSuccess\<rparr>"

text \<open>A ready port whose last reading is \<open>(1.5, 7, 3)\<close>; a ready port with a given raw
  status; a ready port of a given device type.\<close>

definition sample_port :: Port where
  "sample_port =
     calloc_Port\<lparr>init := 1,
                 data := \<lparr>reading = 3 / 2, timestamp = 7, status_raw = 3, eom = 0\<rparr>\<rparr>"

definition port_with_status :: "int \<Rightarrow> Port" where
  "port_with_status raw =
     calloc_Port\<lparr>init := 1, data := (data calloc_Port)\<lparr>status_raw := raw\<rparr>\<rparr>"

definition port_of_type :: "dev \<Rightarrow> Port" where
  "port_of_type d = calloc_Port\<lparr>devtype := d, init := 1\<rparr>"

section \<open>Properties\<close>

subsection \<open>Evaluation of the library functions\<close>

lemma norm10_numeral:
  "norm10 (numeral k) x e =
     (if 10 \<le> x then norm10 (pred_numeral k) (x / 10) (e + 1)
      else if x < 1 then norm10 (pred_numeral k) (x * 10) (e - 1)
      else (x, e))"
  by (simp add: numeral_eq_Suc)

lemmas atof_eval =
  atof_def c_sign_def isspace_c_def isdigit_c_def digits_value_def digit_value_def
  c_exponent_def pow10_def

lemmas atoi_eval =
  atoi_def c_sign_def isspace_c_def isdigit_c_def digits_value_def digit_value_def

lemma printf_g_nplc:
  "printf_g (rate_nplc 0) = ''6''"
  "printf_g (rate_nplc 1) = ''1''"
  "printf_g (rate_nplc 2) = ''0.1''"
  by (simp_all add: printf_g_def norm10_numeral round_half_even_def g_fixed_def
        dec_digits.simps digit_char_def strip_zeros_def)

lemma atof_nplc: "atof ''6'' = 6" "atof ''1'' = 1" "atof ''0.1'' = 1 / 10"
  by (simp_all add: atof_eval)

lemma printf_d_exponents:
  "printf_d (- 9) = ''-9''" "printf_d (- 8) = ''-8''" "printf_d (- 7) = ''-7''"
  "printf_d (- 6) = ''-6''" "printf_d (- 5) = ''-5''" "printf_d (- 4) = ''-4''"
  "printf_d (- 3) = ''-3''" "printf_d (- 2) = ''-2''"
  by (simp_all add: printf_d_def dec_digits.simps digit_char_def)

lemma atoi_exponents:
  "atoi ''-9'' = - 9" "atoi ''-8'' = - 8" "atoi ''-7'' = - 7" "atoi ''-6'' = - 6"
  "atoi ''-5'' = - 5" "atoi ''-4'' = - 4" "atoi ''-3'' = - 3" "atoi ''-2'' = - 2"
  by (simp_all add: atoi_eval)

lemma strchr_append: "c \<notin> set xs \<Longrightarrow> strchr (xs @ c # ys) c = Some (c # ys)"
  by (induction xs) auto

lemma before_append: "before (xs @ ys) ys = xs"
  by (simp add: before_def)

lemma takeWhile_upto: "c \<notin> set t \<Longrightarrow> takeWhile (\<lambda>x. x \<noteq> c) (t @ c # r) = t"
  by (induction t) auto

lemma dropWhile_upto: "c \<notin> set t \<Longrightarrow> dropWhile (\<lambda>x. x \<noteq> c) (t @ c # r) = c # r"
  by (induction t) auto

lemma takeWhile_all: "c \<notin> set t \<Longrightarrow> takeWhile (\<lambda>x. x \<noteq> c) t = t"
  by (induction t) auto

lemma dropWhile_all: "c \<notin> set t \<Longrightarrow> dropWhile (\<lambda>x. x \<noteq> c) t = []"
  by (induction t) auto

lemma dropWhile_none: "t \<noteq> [] \<Longrightarrow> c \<notin> set t \<Longrightarrow> dropWhile (\<lambda>x. x = c) (t @ r) = t @ r"
  by (cases t) auto

subsection \<open>The transport wrappers\<close>

lemma writeRead_reply_env:
  "writeRead p q BUFFER_SIZE (reply_env r) =
     (asynSuccess,
      p\<lparr>wire := wire p @ [WriteRead q],
        stats := (stats p)\<lparr>writeReads := writeReads (stats p) + 1\<rparr>\<rparr>,
      take 99 r, None)"
  by (simp add: writeRead_def reply_env_def BUFFER_SIZE_def)

lemma wire_writeOnly: "wire (snd (writeOnly p buf ev)) = wire p @ [Write buf]"
  by (simp add: writeOnly_def Let_def split: prod.splits)

lemma writeOnly_exchange:
  "writeOnly p buf ev = (st, p') \<Longrightarrow> one_exchange p ev (Return st, p', out)"
  by (auto simp: writeOnly_def one_exchange_def write_fails_def port_of_def outcome_of_def
        last_reading_def Let_def split: prod.splits if_splits)

lemma writeRead_exchange:
  "writeRead p buf n ev = (st, p', inp, e) \<Longrightarrow>
   wire p' = wire p @ [WriteRead buf] \<and> last_reading p' = last_reading p \<and>
   (writeRead_fails ev buf \<longrightarrow> st \<noteq> asynSuccess \<and> ioErrors (stats p') = ioErrors (stats p) + 1)"
  by (auto simp: writeRead_def writeRead_fails_def last_reading_def Let_def
        split: prod.splits if_splits)

lemma store_eom_frame [simp]:
  "wire (store_eom e p) = wire p"
  "stats (store_eom e p) = stats p"
  "last_reading (store_eom e p) = last_reading p"
  by (simp_all add: store_eom_def last_reading_def split: option.splits)

subsection \<open>The limit result of a cached status read\<close>

text \<open>
  Claim C5, as the code has it. For every stored status word whose limit-test bit
  (bit 4) is 0, an integer-kind cached read of the limit-result parameter succeeds and
  returns 3, whatever the stored limit-result bits are: a fourth code, outside the
  encoding 0 = pass, 1 = limit 1 failed, 2 = limit 2 failed. It does not return the
  "all limit tests passed" code 0.
\<close>

theorem limit_result_disabled_reads_3:
  "bits_limit_test (status_raw (data p)) = 0 \<Longrightarrow>
   readCache STATUS_LIMITS_CMD p Int32 =
     (Return asynSuccess, p, (Some (Int32_val 3), None, None))"
  by (simp add: readCache_def)

theorem limit_result_disabled_reads_3_witness:
  "bits_limit_test (status_raw (data (port_with_status 96))) = 0
   \<and> bits_limit_result (status_raw (data (port_with_status 96))) = 3
   \<and> readCache STATUS_LIMITS_CMD (port_with_status 96) Int32 =
       (Return asynSuccess, port_with_status 96, (Some (Int32_val 3), None, None))"
  using limit_result_disabled_reads_3 [of "port_with_status 96"]
  by (simp add: port_with_status_def calloc_Port_def bits_limit_test_def bits_limit_result_def)

text \<open>With the raw status 32 (limit test off, stale limit-result bits 01) the read does
  not return the pass code 0.\<close>

theorem limit_result_pass_code_counterexample:
  "bits_limit_test (status_raw (data (port_with_status 32))) = 0
   \<and> readCache STATUS_LIMITS_CMD (port_with_status 32) Int32 \<noteq>
       (Return asynSuccess, port_with_status 32, (Some (Int32_val 0), None, None))"
  by (simp add: port_with_status_def calloc_Port_def bits_limit_test_def readCache_def)

subsection \<open>Binding a name of the wrong variant\<close>

lemma create_loop_648x_different:
  "find (\<lambda>(tag, d, c). epicsStrCaseCmp_eq n tag) tbl = Some (tag, d, c) \<Longrightarrow>
   d \<noteq> DEV_ALL \<Longrightarrow> d \<noteq> dt \<Longrightarrow>
   create_loop_648x dt n tbl i = (asynError, 0, Some (tag_is_for_different_device n))"
  by (induction dt n tbl i rule: create_loop_648x.induct) (auto split: if_splits)

lemma create_loop_648x_unknown:
  "find (\<lambda>(tag, d, c). epicsStrCaseCmp_eq n tag) tbl = None \<Longrightarrow>
   create_loop_648x dt n tbl i = (asynError, 0, Some (failed_to_find_tag n))"
  by (induction dt n tbl i rule: create_loop_648x.induct) (auto split: if_splits)

lemma find_tag_VOLT_RANGE:
  "find_tag_648x ''VOLT_RANGE'' = Some (''VOLT_RANGE'', DEV_6487, Gen VOLT_RANGE_CMD)"
  by (simp add: find_tag_648x_def commandTable_648x_def epicsStrCaseCmp_eq_def toupper_c_def)

lemma find_tag_NO_SUCH_TAG: "find_tag_648x ''NO_SUCH_TAG'' = None"
  by (simp add: find_tag_648x_def commandTable_648x_def epicsStrCaseCmp_eq_def toupper_c_def)

text \<open>
  Claim C8, as the code has it. When a looked-up name matches an entry of the registry
  whose device is neither \<^verbatim>\<open>DEV_ALL\<close> nor the port's device type, \<^verbatim>\<open>create\<close> of the 648x
  file fails with \<^verbatim>\<open>asynError\<close> and \<^verbatim>\<open>pasynUser->reason\<close> set to 0; for a name that
  matches no entry it fails with the same status and the same reason. The two cases
  differ in the line written to the error log and in nothing that the caller
  receives.
\<close>

theorem wrong_variant_same_as_not_found:
  assumes "find_tag_648x known = Some (tag, d, c)" and "d \<noteq> DEV_ALL" and "d \<noteq> devtype p"
    and "find_tag_648x unknown = None"
  shows "create_648x p known = (asynError, 0, Some (tag_is_for_different_device known))
       \<and> create_648x p unknown = (asynError, 0, Some (failed_to_find_tag unknown))
       \<and> caller_view (create_648x p known) = caller_view (create_648x p unknown)"
  using assms
  by (simp add: create_648x_def find_tag_648x_def caller_view_def
      create_loop_648x_different create_loop_648x_unknown)

theorem wrong_variant_same_as_not_found_witness:
  "find_tag_648x ''VOLT_RANGE'' = Some (''VOLT_RANGE'', DEV_6487, Gen VOLT_RANGE_CMD)
   \<and> DEV_6487 \<noteq> DEV_ALL \<and> DEV_6487 \<noteq> devtype (port_of_type DEV_6485)
   \<and> find_tag_648x ''NO_SUCH_TAG'' = None
   \<and> create_648x (port_of_type DEV_6485) ''VOLT_RANGE''
       = (asynError, 0, Some (tag_is_for_different_device ''VOLT_RANGE''))
   \<and> create_648x (port_of_type DEV_6485) ''NO_SUCH_TAG''
       = (asynError, 0, Some (failed_to_find_tag ''NO_SUCH_TAG''))
   \<and> caller_view (create_648x (port_of_type DEV_6485) ''VOLT_RANGE'')
       = caller_view (create_648x (port_of_type DEV_6485) ''NO_SUCH_TAG'')"
proof -
  have d: "DEV_6487 \<noteq> devtype (port_of_type DEV_6485)"
    by (simp add: port_of_type_def)
  show ?thesis
    using wrong_variant_same_as_not_found [OF find_tag_VOLT_RANGE _ d find_tag_NO_SUCH_TAG]
      find_tag_VOLT_RANGE find_tag_NO_SUCH_TAG d
    by (simp add: caller_view_def)
qed

text \<open>On a 6485 port, the 6487-only name \<^verbatim>\<open>VOLT_RANGE\<close> and the unknown name
  \<^verbatim>\<open>NO_SUCH_TAG\<close> give the caller the same status and the same reason.\<close>

theorem wrong_variant_indistinguishable_counterexample:
  "caller_view (create_648x (port_of_type DEV_6485) ''VOLT_RANGE'') = (asynError, 0)
   \<and> caller_view (create_648x (port_of_type DEV_6485) ''NO_SUCH_TAG'') = (asynError, 0)"
  by (simp add: create_648x_def commandTable_648x_def epicsStrCaseCmp_eq_def toupper_c_def
      port_of_type_def calloc_Port_def caller_view_def)

subsection \<open>Range: what is written and what is read back\<close>

lemma range_cases:
  "0 \<le> v \<Longrightarrow> v \<le> 7 \<Longrightarrow>
   v = 0 \<or> v = 1 \<or> v = 2 \<or> v = 3 \<or> v = 4 \<or> v = 5 \<or> v = 6 \<or> v = (7::int)"
  by arith

text \<open>
  Claim C3, as the code has it. For every enumeration value \<open>v\<close> in 0..7 the range write
  handler sends \<^verbatim>\<open>:RANGE 2.0e\<close> followed by the decimal \<open>v - 9\<close>, with a lower-case
  exponent marker. The read decoder looks for an upper-case \<open>E\<close>: on the reply
  \<^verbatim>\<open>2.0E\<close> followed by the decimal \<open>v - 9\<close> it succeeds and yields \<open>v\<close> (9 plus the
  exponent), and on the fragment \<^verbatim>\<open>2.0e\<close>\<open>v - 9\<close> that the write handler itself produced
  it finds no marker and returns an error.
\<close>

theorem range_roundtrip_upper_case_marker:
  assumes "0 \<le> v" and "v \<le> 7"
  shows "wire (port_of (writeRange RANGE_CMD p (Int32_val v) Int32 ev))
           = wire p @ [Write ('':RANGE 2.0e'' @ printf_d (v - 9))]
       \<and> outcome_of (readRange RANGE_CMD p Int32 (reply_env (''2.0E'' @ printf_d (v - 9))))
           = Return asynSuccess
       \<and> outputs_of (readRange RANGE_CMD p Int32 (reply_env (''2.0E'' @ printf_d (v - 9))))
           = (Some (Int32_val v), None, None)
       \<and> outcome_of (readRange RANGE_CMD p Int32 (reply_env (''2.0e'' @ printf_d (v - 9))))
           = Return asynError"
proof -
  have w: "wire (port_of (writeRange RANGE_CMD p (Int32_val v) Int32 ev))
             = wire p @ [Write ('':RANGE 2.0e'' @ printf_d (v - 9))]"
    using assms wire_writeOnly [of p "'':RANGE 2.0e'' @ printf_d (v - 9)" ev]
    by (simp add: writeRange_def port_of_def split: prod.splits) (metis snd_conv)
  from range_cases [OF assms]
  have r: "outcome_of (readRange RANGE_CMD p Int32 (reply_env (''2.0E'' @ printf_d (v - 9))))
             = Return asynSuccess
         \<and> outputs_of (readRange RANGE_CMD p Int32 (reply_env (''2.0E'' @ printf_d (v - 9))))
             = (Some (Int32_val v), None, None)
         \<and> outcome_of (readRange RANGE_CMD p Int32 (reply_env (''2.0e'' @ printf_d (v - 9))))
             = Return asynError"
    by (elim disjE)
       (simp_all add: readRange_def writeRead_reply_env printf_d_exponents atoi_exponents
          outcome_of_def outputs_of_def)
  from w r show ?thesis by simp
qed

theorem range_roundtrip_upper_case_marker_witness:
  "(0::int) \<le> 3 \<and> (3::int) \<le> 7
   \<and> wire (port_of (writeRange RANGE_CMD sample_port (Int32_val 3) Int32 failing_env))
       = [Write '':RANGE 2.0e-6'']
   \<and> outputs_of (readRange RANGE_CMD sample_port Int32 (reply_env ''2.0E-6''))
       = (Some (Int32_val 3), None, None)
   \<and> outcome_of (readRange RANGE_CMD sample_port Int32 (reply_env ''2.0e-6''))
       = Return asynError"
  using range_roundtrip_upper_case_marker [of 3 sample_port failing_env]
  by (simp add: printf_d_exponents sample_port_def calloc_Port_def)

text \<open>Decoding what the write handler produces for \<open>v = 0\<close>: the fragment
  \<^verbatim>\<open>2.0e-9\<close> is rejected, and the whole command \<^verbatim>\<open>:RANGE 2.0e-9\<close> decodes to 11 (the
  \<open>E\<close> found is the one of \<^verbatim>\<open>RANGE\<close>, and \<^verbatim>\<open>atoi(" 2.0e-9")\<close> is 2).\<close>

theorem range_roundtrip_counterexample:
  "outcome_of (readRange RANGE_CMD sample_port Int32 (reply_env (''2.0e'' @ printf_d (0 - 9))))
     = Return asynError
   \<and> outputs_of (readRange RANGE_CMD sample_port Int32
                   (reply_env ('':RANGE 2.0e'' @ printf_d (0 - 9))))
       = (Some (Int32_val 11), None, None)"
  by (simp add: readRange_def writeRead_reply_env printf_d_exponents outcome_of_def
      outputs_of_def atoi_eval)

subsection \<open>Rate: what is written and what is read back\<close>

lemma rate_cases: "0 \<le> v \<Longrightarrow> v \<le> 2 \<Longrightarrow> v = 0 \<or> v = 1 \<or> v = (2::int)"
  by arith

text \<open>In the 648x file the three constants are classified back to the value
  written.\<close>

lemma readRate_648x_roundtrip:
  assumes "0 \<le> v" and "v \<le> 2"
  shows "outputs_of (readRate_648x p Int32 (reply_env (printf_g (rate_nplc v))))
           = (Some (Int32_val v), None, None)"
  using rate_cases [OF assms]
  by (elim disjE)
     (simp_all add: printf_g_nplc del: rate_nplc.simps,
      simp_all add: readRate_648x_def writeRead_reply_env atof_nplc outputs_of_def)

text \<open>
  Claim C4 fails in the 6485 file. The rate write handler sends \<^verbatim>\<open>:NPLC\<close> with the
  constant of the value written; but \<^verbatim>\<open>readRate\<close> of the 6485 file, whatever its
  uninitialised local \<^verbatim>\<open>rate\<close> holds, gives the same result for the constant of
  Medium (1.0) and for the constant of Fast (0.1): with 0 in the local, Medium reads
  back as 2; with 1 in it, Fast reads back as 1.
\<close>

theorem readRate_6485_medium_fast_alike:
  "wire (port_of (writeRate p (Int32_val 1) Int32 ev))
     = wire p @ [Write ('':NPLC '' @ printf_g (rate_nplc 1))]
   \<and> wire (port_of (writeRate p (Int32_val 2) Int32 ev))
       = wire p @ [Write ('':NPLC '' @ printf_g (rate_nplc 2))]
   \<and> readRate_6485 rate0 p Int32 (reply_env (printf_g (rate_nplc 1)))
       = readRate_6485 rate0 p Int32 (reply_env (printf_g (rate_nplc 2)))
   \<and> outputs_of (readRate_6485 0 p Int32 (reply_env (printf_g (rate_nplc 1))))
       = (Some (Int32_val 2), None, None)
   \<and> outputs_of (readRate_6485 1 p Int32 (reply_env (printf_g (rate_nplc 2))))
       = (Some (Int32_val 1), None, None)"
proof -
  have w: "wire (port_of (writeRate p (Int32_val v) Int32 ev))
             = wire p @ [Write ('':NPLC '' @ printf_g (rate_nplc v))]"
    if "0 \<le> v" "v \<le> 2" for v
    using that wire_writeOnly [of p "'':NPLC '' @ printf_g (rate_nplc v)" ev]
    by (simp add: writeRate_def port_of_def split: prod.splits del: rate_nplc.simps)
       (metis snd_conv)
  have r: "readRate_6485 rate0 p Int32 (reply_env (printf_g (rate_nplc 1)))
             = readRate_6485 rate0 p Int32 (reply_env (printf_g (rate_nplc 2)))"
    by (simp add: printf_g_nplc del: rate_nplc.simps)
       (simp add: readRate_6485_def writeRead_reply_env atof_nplc)
  have a: "outputs_of (readRate_6485 0 p Int32 (reply_env (printf_g (rate_nplc 1))))
             = (Some (Int32_val 2), None, None)"
    by (simp add: printf_g_nplc del: rate_nplc.simps)
       (simp add: readRate_6485_def writeRead_reply_env atof_nplc outputs_of_def)
  have b: "outputs_of (readRate_6485 1 p Int32 (reply_env (printf_g (rate_nplc 2))))
             = (Some (Int32_val 1), None, None)"
    by (simp add: printf_g_nplc del: rate_nplc.simps)
       (simp add: readRate_6485_def writeRead_reply_env atof_nplc outputs_of_def)
  from w [of 1] w [of 2] r a b show ?thesis by simp
qed

subsection \<open>The sensor reading\<close>

lemma strtok_first:
  "t \<noteq> [] \<Longrightarrow> CHR '','' \<notin> set t \<Longrightarrow>
   epicsStrtok_r (Some (t @ CHR '','' # rest)) '','' l = (Some t, Some rest)"
  by (simp add: epicsStrtok_r_def dropWhile_none takeWhile_upto dropWhile_upto)

lemma strtok_next:
  "t \<noteq> [] \<Longrightarrow> CHR '','' \<notin> set t \<Longrightarrow>
   epicsStrtok_r None '','' (Some (t @ CHR '','' # rest)) = (Some t, Some rest)"
  by (simp add: epicsStrtok_r_def dropWhile_none takeWhile_upto dropWhile_upto)

lemma strtok_last:
  "t \<noteq> [] \<Longrightarrow> CHR '','' \<notin> set t \<Longrightarrow>
   epicsStrtok_r None '','' (Some t) = (Some t, None)"
  using dropWhile_none [of t "CHR '',''" "[]"]
  by (simp add: epicsStrtok_r_def takeWhile_all dropWhile_all)

lemma tok_loop_step:
  "pass < 3 \<Longrightarrow>
   tok_loop pass str sp tk =
     (let (t, sp') = epicsStrtok_r str '','' sp
      in tok_loop (Suc pass) None sp' (tk[pass := t]))"
  by (subst tok_loop.simps) (simp add: token_is_NULL_def)

lemma tok_loop_done: "tok_loop (Suc (Suc (Suc 0))) str sp tk = (3, tk)"
  by (subst tok_loop.simps) simp

text \<open>The loop always makes its three passes.\<close>

lemma tok_loop_pass: "fst (tok_loop 0 str sp tk) = 3"
  by (simp add: tok_loop_step tok_loop_done split: prod.splits)

lemma tok_loop_three:
  assumes "t0 \<noteq> []" "t1 \<noteq> []" "t2 \<noteq> []"
    "CHR '','' \<notin> set t0" "CHR '','' \<notin> set t1" "CHR '','' \<notin> set t2"
  shows "tok_loop 0 (Some (t0 @ CHR '','' # t1 @ CHR '','' # t2)) None [None, None, None]
       = (3, [Some t0, Some t1, Some t2])"
  using assms
  by (simp add: tok_loop_step tok_loop_done strtok_first strtok_next strtok_last)

lemma tok_loop_two:
  assumes "t0 \<noteq> []" "t1 \<noteq> []" "CHR '','' \<notin> set t0" "CHR '','' \<notin> set t1"
  shows "tok_loop 0 (Some (t0 @ CHR '','' # t1)) None [None, None, None]
       = (3, [Some t0, Some t1, None])"
  using assms
  by (simp add: tok_loop_step tok_loop_done strtok_first strtok_last)
     (simp add: epicsStrtok_r_def)

lemma atof_not_a_number: "not_a_number t \<Longrightarrow> atof t = 0"
  by (cases "c_sign (dropWhile isspace_c t)")
     (auto simp: not_a_number_def number_start_def atof_def Let_def split: list.splits)

lemma digit_value_le: "isdigit_c c \<Longrightarrow> digit_value c \<le> 9"
  unfolding isdigit_c_def digit_value_def by linarith

lemma foldl_digits_bound:
  "\<forall>c\<in>set ds. isdigit_c c \<Longrightarrow>
   foldl (\<lambda>acc c. 10 * acc + digit_value c) a ds < (a + 1) * 10 ^ length ds"
proof (induction ds arbitrary: a)
  case Nil
  then show ?case by simp
next
  case (Cons d ds)
  then have "foldl (\<lambda>acc c. 10 * acc + digit_value c) (10 * a + digit_value d) ds
      < (10 * a + digit_value d + 1) * 10 ^ length ds"
    by simp
  also have "\<dots> \<le> (10 * a + 10) * 10 ^ length ds"
    using Cons.prems digit_value_le [of d] by (intro mult_le_mono1) simp
  finally show ?case by (simp add: algebra_simps)
qed

lemma digits_value_bound:
  assumes "length (takeWhile isdigit_c r) \<le> 9"
  shows "digits_value (takeWhile isdigit_c r) < 10 ^ 9"
proof -
  have "\<forall>c\<in>set (takeWhile isdigit_c r). isdigit_c c"
    by (auto dest: set_takeWhileD)
  from foldl_digits_bound [OF this, of 0]
  have "digits_value (takeWhile isdigit_c r) < 10 ^ length (takeWhile isdigit_c r)"
    by (simp add: digits_value_def)
  also have "\<dots> \<le> (10::nat) ^ 9"
    using assms by (intro power_increasing) simp_all
  finally show ?thesis .
qed

text \<open>A plain integer reads as itself, and it is below \<open>10 ^ 9\<close> in magnitude.\<close>

lemma atof_plain_integer:
  assumes "plain_integer t"
  shows "atof t = of_int (atoi t) \<and> \<bar>atoi t\<bar> < 10 ^ 9"
proof -
  obtain neg r where s: "c_sign (dropWhile isspace_c t) = (neg, r)"
    by (cases "c_sign (dropWhile isspace_c t)")
  from assms s have ds: "takeWhile isdigit_c r \<noteq> []" "length (takeWhile isdigit_c r) \<le> 9"
    and rest: "case dropWhile isdigit_c r of [] \<Rightarrow> True
         | c # r \<Rightarrow> c \<noteq> CHR ''.'' \<and> c \<noteq> CHR ''e'' \<and> c \<noteq> CHR ''E''
                        \<and> c \<noteq> CHR ''x'' \<and> c \<noteq> CHR ''X''"
    by (simp_all add: plain_integer_def number_start_def Let_def)
  from digits_value_bound [OF ds(2)]
  have b: "int (digits_value (takeWhile isdigit_c r)) < 10 ^ 9"
    by (metis of_nat_less_iff of_nat_numeral of_nat_power)
  from rest ds(1)
  have a: "atof t = (if neg then - real (digits_value (takeWhile isdigit_c r))
                     else real (digits_value (takeWhile isdigit_c r)))"
    by (cases "dropWhile isdigit_c r")
       (simp_all add: atof_def s Let_def c_exponent_def pow10_def del: dropWhile_eq_Nil_conv)
  have i: "atoi t = (if neg then - int (digits_value (takeWhile isdigit_c r))
                     else int (digits_value (takeWhile isdigit_c r)))"
    by (simp add: atoi_def s Let_def)
  from a i b show ?thesis by auto
qed

text \<open>The value of an exact field is an integer that \<^verbatim>\<open>(int)\<close> converts to itself.\<close>

lemma exact_field_int:
  assumes "exact_field t"
  shows "\<exists>n. atof t = of_int n \<and> double_to_int (atof t) = Some n"
proof (cases "not_a_number t")
  case True
  then show ?thesis by (simp add: atof_not_a_number double_to_int_def)
next
  case False
  with assms have "plain_integer t" by (simp add: exact_field_def)
  from atof_plain_integer [OF this]
  have v: "atof t = of_int (atoi t)" and "\<bar>atoi t\<bar> < 10 ^ 9" by simp_all
  then have "double_to_int (atof t) = Some (atoi t)"
    by (auto simp: double_to_int_def Let_def)
  with v show ?thesis by blast
qed

text \<open>
  Claim C1, as the code has it. The sensor-read handler does not test whether a field
  is numeric. For every prior snapshot and every reply made of three non-empty fields
  separated by commas, each field either not a number at all or a plain decimal integer
  of at most nine digits (\<open>exact_field\<close>), a float-kind or integer-kind read returns
  success and the last reading becomes \<^verbatim>\<open>atof\<close> of the first field, and \<^verbatim>\<open>atof\<close> of the
  second and of the third converted to \<^verbatim>\<open>int\<close>, where a field that is not a number
  reads as 0 (\<open>atof_not_a_number\<close>): no error is returned for a field that is not
  numeric, and the snapshot is overwritten. (What happens on a reply with fewer than
  three fields is not part of this statement, see \<open>readSensorReading_two_fields\<close>
  below; nor are the other numeric forms of \<^verbatim>\<open>strtod\<close>, nor a text-kind read.)
\<close>

theorem readSensorReading_accepts_three_fields:
  assumes ex: "octet_writeRead ev ''READ?'' = (asynSuccess, 5, t0 @ '','' @ t1 @ '','' @ t2, e)"
    and len: "length (t0 @ '','' @ t1 @ '','' @ t2) < BUFFER_SIZE"
    and ne: "t0 \<noteq> []" "t1 \<noteq> []" "t2 \<noteq> []"
    and nc: "CHR '','' \<notin> set t0" "CHR '','' \<notin> set t1" "CHR '','' \<notin> set t2"
    and xf: "exact_field t0" "exact_field t1" "exact_field t2"
    and kd: "Iface \<noteq> Octet"
  shows "outcome_of (readSensorReading p Iface ev) = Return asynSuccess
       \<and> last_reading (port_of (readSensorReading p Iface ev))
           = (atof t0, \<lfloor>atof t1\<rfloor>, \<lfloor>atof t2\<rfloor>)"
proof -
  have wr: "writeRead p ''READ?'' BUFFER_SIZE ev =
      (asynSuccess,
       p\<lparr>wire := wire p @ [WriteRead ''READ?''],
         stats := (stats p)\<lparr>writeReads := writeReads (stats p) + 1\<rparr>\<rparr>,
       t0 @ '','' @ t1 @ '','' @ t2, e)"
    using ex len by (simp add: writeRead_def)
  from exact_field_int [OF xf(2)] obtain ts
    where ts: "atof t1 = of_int ts" "double_to_int (atof t1) = Some ts" by blast
  from exact_field_int [OF xf(3)] obtain raw
    where raw: "atof t2 = of_int raw" "double_to_int (atof t2) = Some raw" by blast
  have fl: "\<lfloor>atof t1\<rfloor> = ts" "\<lfloor>atof t2\<rfloor> = raw"
    by (simp_all add: ts(1) raw(1))
  show ?thesis
    using ts(2) raw(2) kd
    by (cases Iface; cases e)
       (simp_all add: readSensorReading_def wr tok_loop_three [OF ne nc] store_eom_def
          outcome_of_def port_of_def last_reading_def fl)
qed

theorem readSensorReading_accepts_three_fields_witness:
  "exact_field ''5'' \<and> exact_field ''12345'' \<and> exact_field ''xyz'' \<and> not_a_number ''xyz''
   \<and> outcome_of (readSensorReading sample_port Float64 (reply_env ''5,12345,xyz''))
       = Return asynSuccess
   \<and> last_reading (port_of (readSensorReading sample_port Float64 (reply_env ''5,12345,xyz'')))
       = (5, 12345, 0)"
proof -
  have ex: "octet_writeRead (reply_env ''5,12345,xyz'') ''READ?''
      = (asynSuccess, 5, ''5'' @ '','' @ ''12345'' @ '','' @ ''xyz'', None)"
    by (simp add: reply_env_def)
  have len: "length (''5'' @ '','' @ ''12345'' @ '','' @ ''xyz'') < BUFFER_SIZE"
    by (simp add: BUFFER_SIZE_def)
  have nn: "not_a_number ''xyz''"
    by (simp add: not_a_number_def number_start_def c_sign_def isspace_c_def isdigit_c_def
        toupper_c_def)
  have xf: "exact_field ''5''" "exact_field ''12345''" "exact_field ''xyz''"
    using nn
    by (simp_all add: exact_field_def plain_integer_def number_start_def c_sign_def
          isspace_c_def isdigit_c_def)
  have v: "atof ''5'' = 5" "atof ''12345'' = 12345" "atof ''xyz'' = 0"
    by (simp_all add: atof_eval)
  have kd: "Float64 \<noteq> Octet" by simp
  from readSensorReading_accepts_three_fields
         [OF ex len _ _ _ _ _ _ xf kd, of sample_port]
       xf nn
  show ?thesis by (simp add: v)
qed

text \<open>Three fields that are not numbers: the handler returns success and the last
  reading \<open>(1.5, 7, 3)\<close> is overwritten with \<open>(0, 0, 0)\<close>.\<close>

theorem readSensorReading_non_numeric_counterexample:
  "outcome_of (readSensorReading sample_port Float64 (reply_env ''abc,def,ghi''))
     = Return asynSuccess
   \<and> last_reading (port_of (readSensorReading sample_port Float64 (reply_env ''abc,def,ghi'')))
       = (0, 0, 0)
   \<and> last_reading sample_port = (3 / 2, 7, 3)"
proof -
  have tk: "tok_loop 0 (Some ''abc,def,ghi'') None [None, None, None]
      = (3, [Some ''abc'', Some ''def'', Some ''ghi''])"
    using tok_loop_three [of "''abc''" "''def''" "''ghi''"] by simp
  have z: "atof ''abc'' = 0" "atof ''def'' = 0" "atof ''ghi'' = 0"
    by (simp_all add: atof_eval)
  show ?thesis
    by (simp add: readSensorReading_def writeRead_reply_env tk z double_to_int_def
        store_eom_def outcome_of_def port_of_def last_reading_def)
       (simp add: sample_port_def calloc_Port_def)
qed

text \<open>The reply \<^verbatim>\<open>abc,def\<close> of the specification's example, with two fields. The test
  after the loop never fires, \<^verbatim>\<open>atof\<close> is reached with the \<^verbatim>\<open>NULL\<close> third token, and by
  then the reading and the timestamp have been overwritten.\<close>

lemma readSensorReading_two_fields:
  "outcome_of (readSensorReading sample_port Float64 (reply_env ''abc,def'')) = Undefined
   \<and> last_reading (port_of (readSensorReading sample_port Float64 (reply_env ''abc,def'')))
       = (0, 0, 3)"
proof -
  have tk: "tok_loop 0 (Some ''abc,def'') None [None, None, None]
      = (3, [Some ''abc'', Some ''def'', None])"
    using tok_loop_two [of "''abc''" "''def''"] by simp
  have z: "atof ''abc'' = 0" "atof ''def'' = 0"
    by (simp_all add: atof_eval)
  show ?thesis
    by (simp add: readSensorReading_def writeRead_reply_env tk z double_to_int_def
        store_eom_def outcome_of_def port_of_def last_reading_def)
       (simp add: sample_port_def calloc_Port_def)
qed

subsection \<open>The identification reply\<close>

lemma split_identification_ok:
  assumes "CHR '','' \<notin> set mfr" "CHR '','' \<notin> set mdl" "CHR '','' \<notin> set sn"
    "CHR ''/'' \<notin> set a" "CHR ''/'' \<notin> set b"
  shows "split_identification (mfr @ '','' @ mdl @ '','' @ sn @ '','' @ a @ ''/'' @ b @ ''/'' @ c)
     = Some (mfr @ '','' @ mdl, sn, a, b, c)"
proof -
  let ?s2 = "CHR '','' # sn @ '','' @ a @ ''/'' @ b @ ''/'' @ c"
  have b1: "before (mfr @ '','' @ mdl @ ?s2) ?s2 = mfr @ '','' @ mdl"
    using before_append [of "mfr @ '','' @ mdl" ?s2] by simp
  show ?thesis
    using assms b1 before_append [of sn] before_append [of a] before_append [of b]
    by (simp add: split_identification_def strchr_append)
qed

lemma setup_port_identified:
  assumes su: "connect_status su = asynSuccess" "registerPort_status su = asynSuccess"
      "initialize_status su = asynSuccess"
    and cls: "octet_write ev ''*CLS'' = (asynSuccess, 4)"
    and idn: "octet_writeRead ev ''*IDN?'' =
         (asynSuccess, 5, mfr @ '','' @ mdl @ '','' @ sn @ '','' @ a @ ''/'' @ b @ ''/'' @ c, e)"
    and len: "length (mfr @ '','' @ mdl @ '','' @ sn @ '','' @ a @ ''/'' @ b @ ''/'' @ c)
                < BUFFER_SIZE"
    and nd: "CHR '','' \<notin> set mfr" "CHR '','' \<notin> set mdl" "CHR '','' \<notin> set sn"
      "CHR ''/'' \<notin> set a" "CHR ''/'' \<notin> set b"
  shows "identified (setup_port p su ev) (mfr @ '','' @ mdl) sn a b c"
proof -
  have sp: "split_identification
              (take (BUFFER_SIZE - 1)
                 (mfr @ '','' @ mdl @ '','' @ sn @ '','' @ a @ ''/'' @ b @ ''/'' @ c))
      = Some (mfr @ '','' @ mdl, sn, a, b, c)"
    using len split_identification_ok [OF nd, of c] by simp
  show ?thesis
    using su cls idn sp
    by (simp add: setup_port_def writeOnly_def writeRead_def identified_def del: append.simps)
qed

text \<open>
  Claim C2, as the code has it. The constructor steps over the first comma and cuts at
  the second, so the reply it splits has four comma-separated parts:
  \<^verbatim>\<open>Manufacturer,Model,Serial,digRev/dispRev/brdRev\<close>. For every such reply (no comma
  inside the first three parts, no slash inside \<open>digRev\<close> and \<open>dispRev\<close>) connection
  setup succeeds, in both files, with the fields model = \<^verbatim>\<open>Manufacturer,Model\<close>,
  serial, digital revision, display revision and board revision; so
  \<^verbatim>\<open>KEITHLEY INSTRUMENTS INC.,MODEL 6485,SN001,A1/B2/C3\<close> yields
  model = \<^verbatim>\<open>KEITHLEY INSTRUMENTS INC.,MODEL 6485\<close>, serial = \<^verbatim>\<open>SN001\<close>, \<^verbatim>\<open>A1\<close>, \<^verbatim>\<open>B2\<close>,
  \<^verbatim>\<open>C3\<close>.
\<close>

theorem identification_split_four_parts:
  assumes su: "connect_status su = asynSuccess" "registerPort_status su = asynSuccess"
      "initialize_status su = asynSuccess"
    and cls: "octet_write ev ''*CLS'' = (asynSuccess, 4)"
    and idn: "octet_writeRead ev ''*IDN?'' =
         (asynSuccess, 5, mfr @ '','' @ mdl @ '','' @ sn @ '','' @ a @ ''/'' @ b @ ''/'' @ c, e)"
    and len: "length (mfr @ '','' @ mdl @ '','' @ sn @ '','' @ a @ ''/'' @ b @ ''/'' @ c)
                < BUFFER_SIZE"
    and nd: "CHR '','' \<notin> set mfr" "CHR '','' \<notin> set mdl" "CHR '','' \<notin> set sn"
      "CHR ''/'' \<notin> set a" "CHR ''/'' \<notin> set b"
  shows "identified (drvAsynKeithley6485 su ev) (mfr @ '','' @ mdl) sn a b c
       \<and> identified (drvAsynKeithley648x ''6485'' su ev) (mfr @ '','' @ mdl) sn a b c
       \<and> identified (drvAsynKeithley648x ''6487'' su ev) (mfr @ '','' @ mdl) sn a b c"
  using setup_port_identified [OF su cls idn len nd]
  by (simp add: drvAsynKeithley6485_def drvAsynKeithley648x_def)

theorem identification_split_four_parts_witness:
  "identified
     (drvAsynKeithley6485 su_ok
        (reply_env ''KEITHLEY INSTRUMENTS INC.,MODEL 6485,SN001,A1/B2/C3''))
     ''KEITHLEY INSTRUMENTS INC.,MODEL 6485'' ''SN001'' ''A1'' ''B2'' ''C3''"
  using identification_split_four_parts
          [of su_ok "reply_env ''KEITHLEY INSTRUMENTS INC.,MODEL 6485,SN001,A1/B2/C3''"
              "''KEITHLEY INSTRUMENTS INC.''" "''MODEL 6485''" "''SN001''" "''A1''" "''B2''"
              "''C3''" None]
  by (simp add: su_ok_def reply_env_def BUFFER_SIZE_def)

text \<open>The reply \<^verbatim>\<open>MODEL6485,SN001,A1/B2/C3\<close> has no third comma: the third \<^verbatim>\<open>strchr\<close>
  returns \<^verbatim>\<open>NULL\<close>, which is dereferenced, and the five fields are not produced.\<close>

theorem identification_three_parts_counterexample:
  "fst (drvAsynKeithley6485 su_ok (reply_env ''MODEL6485,SN001,A1/B2/C3'')) = Undefined
   \<and> \<not> identified (drvAsynKeithley6485 su_ok (reply_env ''MODEL6485,SN001,A1/B2/C3''))
         ''MODEL6485'' ''SN001'' ''A1'' ''B2'' ''C3''"
  by (simp add: drvAsynKeithley6485_def setup_port_def su_ok_def reply_env_def writeOnly_def
      writeRead_def BUFFER_SIZE_def split_identification_def identified_def)

lemma setup_port_split_failure:
  assumes "connect_status su = asynSuccess" "registerPort_status su = asynSuccess"
      "initialize_status su = asynSuccess"
    and "octet_write ev ''*CLS'' = (asynSuccess, 4)"
    and "octet_writeRead ev ''*IDN?'' = (asynSuccess, 5, r, e)"
    and "split_identification (take (BUFFER_SIZE - 1) r) = None"
  shows "fst (setup_port p su ev) = Undefined"
  using assms by (simp add: setup_port_def writeOnly_def writeRead_def)

text \<open>
  Claim C7 fails in the code. An identification reply that lacks a delimiter does not
  make setup report a failure: \<^verbatim>\<open>strchr\<close> returns \<^verbatim>\<open>NULL\<close> and the constructor
  dereferences it. So it is for \<^verbatim>\<open>MODEL6485\<close> (no delimiter at all) in the 6485 file
  and for a reply without slashes in the 648x file.
\<close>

theorem identification_missing_delimiter_undefined:
  "fst (drvAsynKeithley6485 su_ok (reply_env ''MODEL6485'')) = Undefined
   \<and> fst (drvAsynKeithley648x ''6487'' su_ok
            (reply_env ''KEITHLEY INSTRUMENTS INC.,MODEL 6487,SN001,A1B2C3'')) = Undefined"
  by (simp add: drvAsynKeithley6485_def drvAsynKeithley648x_def setup_port_def su_ok_def
      reply_env_def writeOnly_def writeRead_def BUFFER_SIZE_def split_identification_def
      calloc_Port_def)

subsection \<open>One exchange for each access\<close>

lemma one_exchange_refl [simp]: "one_exchange p ev (oc, p, out)"
  by (simp add: one_exchange_def port_of_def)

lemma one_exchange_failed_read:
  assumes "writeRead p buf n ev = (st, p0, inp, e)" and "st \<noteq> asynSuccess"
  shows "one_exchange p ev (Return st, store_eom e p0, out)"
  using writeRead_exchange [OF assms(1)] assms(2)
  by (auto simp: one_exchange_def port_of_def outcome_of_def)

lemma one_exchange_ok_read:
  assumes "writeRead p buf n ev = (asynSuccess, p0, inp, e)" and "wire p' = wire p0"
  shows "one_exchange p ev (oc, p', out)"
  using writeRead_exchange [OF assms(1)] assms(2)
  by (auto simp: one_exchange_def port_of_def)

lemma readSimpleData_exchange: "one_exchange p ev (readSimpleData w p k ev)"
  by (auto simp: readSimpleData_def Let_def split: prod.splits Type.splits
        intro: one_exchange_failed_read one_exchange_ok_read)

lemma writeSimpleData_exchange: "one_exchange p ev (writeSimpleData w p d k ev)"
  by (auto simp: writeSimpleData_def Let_def split: prod.splits Type.splits val.splits
        intro: writeOnly_exchange)

lemma readCache_exchange: "one_exchange p ev (readCache c p k)"
  by (auto simp: readCache_def Let_def split: Type.splits option.splits)

lemma readSensorReading_exchange: "one_exchange p ev (readSensorReading p k ev)"
  by (auto simp: readSensorReading_def Let_def split: prod.splits Type.splits option.splits
        intro: one_exchange_failed_read one_exchange_ok_read)

lemma readRange_exchange: "one_exchange p ev (readRange g p k ev)"
  by (auto simp: readRange_def Let_def split: prod.splits option.splits
        intro: one_exchange_failed_read one_exchange_ok_read)

lemma writeRange_exchange: "one_exchange p ev (writeRange g p d k ev)"
  by (auto simp: writeRange_def Let_def split: prod.splits option.splits val.splits
        intro: writeOnly_exchange)

lemma readRate_6485_exchange: "one_exchange p ev (readRate_6485 r p k ev)"
  by (auto simp: readRate_6485_def Let_def split: prod.splits
        intro: one_exchange_failed_read one_exchange_ok_read)

lemma readRate_648x_exchange: "one_exchange p ev (readRate_648x p k ev)"
  by (auto simp: readRate_648x_def Let_def split: prod.splits
        intro: one_exchange_failed_read one_exchange_ok_read)

lemma writeRate_exchange: "one_exchange p ev (writeRate p d k ev)"
  by (auto simp: writeRate_def Let_def split: prod.splits val.splits simp del: rate_nplc.simps
        intro: writeOnly_exchange)

lemma readCommon_exchange: "one_exchange p ev (readCommon r g p k ev)"
  by (auto simp: readCommon_def Let_def split: prod.splits
        intro: one_exchange_failed_read one_exchange_ok_read)

lemma writeCommon_exchange: "one_exchange p ev (writeCommon g p d k ev)"
  by (auto simp: writeCommon_def Let_def split: prod.splits val.splits
        intro: writeOnly_exchange)

lemma with_nbytes_exchange: "one_exchange p ev R \<Longrightarrow> one_exchange p ev (with_nbytes n R)"
  by (cases R) (auto simp: with_nbytes_def one_exchange_def port_of_def outcome_of_def)

lemma genCommandTable_readFunc_exchange:
  "one_exchange p ev (genCommandTable_readFunc drv g p k ev)"
  by (cases g; cases drv)
     (simp_all add: genCommandTable_readFunc_def readDummy_def readSensorReading_exchange
        readRange_exchange readRate_6485_exchange readRate_648x_exchange readCommon_exchange)

lemma genCommandTable_writeFunc_exchange:
  "one_exchange p ev (genCommandTable_writeFunc drv g p d k ev)"
  by (cases g; cases drv)
     (simp_all add: genCommandTable_writeFunc_def writeDummy_def writeRange_exchange
        writeRate_exchange writeCommon_exchange)

lemma do_access_exchange: "one_exchange p ev (do_access drv p which a ev)"
  by (cases a)
     (simp_all add: do_access_def readOctet_def readFloat64_def readInt32_def writeOctet_def
        writeFloat64_def writeInt32_def genCommandTable_readFunc_exchange
        genCommandTable_writeFunc_exchange readSimpleData_exchange writeSimpleData_exchange
        readCache_exchange with_nbytes_exchange split: option.splits cmd_ref.splits)

lemma do_access_at_most_one_request:
  "wire (port_of (do_access drv p which a ev)) = wire p
   \<or> (\<exists>x. wire (port_of (do_access drv p which a ev)) = wire p @ [x])"
  using do_access_exchange [of p ev drv which a]
  by (auto simp: one_exchange_def)




subsection \<open>Writes to cached parameters\<close>

lemma command_at_MODEL:
  "command_at K6485 10 = Some (Cache MODEL_CMD)"
  "command_at K648x 17 = Some (Cache MODEL_CMD)"
  by (simp_all add: command_at_def commandTable_6485_def commandTable_648x_def)

text \<open>
  Claim C10, as the code has it. For every parameter of the cached family (either file)
  and every value kind, a write access on a port that is ready (\<^verbatim>\<open>init\<close> not 0) returns
  success, sends nothing and leaves the whole port as it was: identification fields,
  last reading, counters, \<^verbatim>\<open>init\<close> and the record of requests. On a port that is not
  ready the same write returns \<^verbatim>\<open>asynError\<close>, also without sending anything or changing
  the port.
\<close>

theorem cached_write_frame:
  assumes "command_at drv which = Some (Cache c)" and "is_write a"
  shows "(init p \<noteq> 0 \<longrightarrow> do_access drv p which a ev = (Return asynSuccess, p, no_output))
       \<and> (init p = 0 \<longrightarrow> do_access drv p which a ev = (Return asynError, p, no_output))"
  using assms
  by (cases a) (simp_all add: do_access_def writeOctet_def writeFloat64_def writeInt32_def)

theorem cached_write_frame_witness:
  "command_at K6485 10 = Some (Cache MODEL_CMD) \<and> is_write (WriteInt32 5)
   \<and> init sample_port \<noteq> 0 \<and> init calloc_Port = 0
   \<and> do_access K6485 sample_port 10 (WriteInt32 5) failing_env
       = (Return asynSuccess, sample_port, no_output)
   \<and> do_access K6485 calloc_Port 10 (WriteInt32 5) failing_env
       = (Return asynError, calloc_Port, no_output)"
  using cached_write_frame [OF command_at_MODEL(1), of "WriteInt32 5" sample_port failing_env]
        cached_write_frame [OF command_at_MODEL(1), of "WriteInt32 5" calloc_Port failing_env]
        command_at_MODEL(1)
  by (simp add: sample_port_def calloc_Port_def)

text \<open>A write to \<^verbatim>\<open>MODEL\<close> on a port whose setup has not completed does not return
  success.\<close>

theorem cached_write_not_ready_counterexample:
  "command_at K648x 17 = Some (Cache MODEL_CMD)
   \<and> outcome_of (do_access K648x calloc_Port 17 (WriteInt32 5) failing_env) = Return asynError"
  by (simp add: command_at_MODEL do_access_def writeInt32_def calloc_Port_def outcome_of_def)

subsection \<open>Accesses of a kind the handler declines\<close>

lemma silent_no_op_simps [simp]:
  "silent_no_op p (Return asynSuccess, p, no_output)"
  "silent_no_op p (with_nbytes n (Return asynSuccess, p, no_output))"
  by (simp_all add: silent_no_op_def outcome_of_def port_of_def outputs_of_def no_output_def
        with_nbytes_def)







lemma command_at_samples:
  "command_at K6485 1 = Some (Gen READ_CMD)"
  "command_at K6485 2 = Some (Gen RANGE_CMD)"
  "command_at K6485 7 = Some (Simple ZERO_CHECK_CMD)"
  "command_at K6485 9 = Some (Simple ZERO_CORRECT_ACQUIRE_CMD)"
  "command_at K6485 15 = Some (Cache TIMESTAMP_CMD)"
  by (simp_all add: command_at_def commandTable_6485_def)



text \<open>A text-kind read of an integer-native cached parameter: \<^verbatim>\<open>char_cache\<close> is still
  \<^verbatim>\<open>NULL\<close> when \<^verbatim>\<open>strlen\<close> is called on it.\<close>

lemma readCache_text_of_integer:
  "i \<notin> {MODEL_CMD, SERIAL_CMD, DIG_REV_CMD, DISP_REV_CMD, BRD_REV_CMD} \<Longrightarrow>
   readCache i p Octet = (Undefined, p, no_output)"
  by (cases i) (simp_all add: readCache_def)

lemma read_TIMESTAMP_as_text:
  "do_access K6485 sample_port 15 ReadOctet ev = (Undefined, sample_port, no_output)"
  by (simp add: do_access_def readOctet_def command_at_samples readCache_text_of_integer)
     (simp add: sample_port_def calloc_Port_def)

text \<open>A trigger executes on a write of any kind.\<close>

lemma write_trigger_as_float:
  "wire (port_of (do_access K6485 sample_port 9 (WriteFloat64 0) ev)) = [Write ''SYST:ZCOR:ACQ'']"
proof -
  have "do_access K6485 sample_port 9 (WriteFloat64 0) ev
      = writeSimpleData ZERO_CORRECT_ACQUIRE_CMD sample_port (Float64_val 0) Float64 ev"
    by (simp add: do_access_def writeFloat64_def command_at_samples)
       (simp add: sample_port_def calloc_Port_def)
  moreover have "wire sample_port = []"
    by (simp add: sample_port_def calloc_Port_def)
  ultimately show ?thesis
    using wire_writeOnly [of sample_port "''SYST:ZCOR:ACQ''" ev]
    by (simp add: writeSimpleData_def port_of_def split: prod.splits)
qed

end
